theory Spec2Isabelle
  imports Complex_Main "HOL-Library.Char_ord"
begin

section \<open>JavaScript values\<close>

text \<open>
  The connector is JavaScript. A number is an IEEE double: a finite double is represented
  by the real number it denotes, and the three non-finite values are constructors of their
  own (\<open>-0\<close> and \<open>+0\<close> coincide; the code never tells them apart). A string is a
  \<open>char list\<close>; the string functions below are those of the ASCII range, characters from
  128 on are left untouched by them.
\<close>

datatype jsnum = NaN | Fin real | PosInf | NegInf

text \<open>
  The values that reach the connector: primitives, Date objects (with their time value),
  arrays, plain objects, \<open>Error\<close> objects (with their message) and the connector's
  own \<open>InvalidParam\<close> objects (\<open>function InvalidParam(msg) { this.msg = msg; }\<close>).
\<close>

datatype jsval =
    Undefined
  | Null
  | Bool bool
  | Num jsnum
  | Str string
  | DateObj jsnum
  | Arr "jsval list"
  | Obj "(string \<times> jsval) list"
  | ErrorObj string
  | InvalidParam string

text \<open>\<open>!v\<close> is \<open>\<not> truthy v\<close>.\<close>

fun truthy :: "jsval \<Rightarrow> bool" where
  "truthy Undefined = False"
| "truthy Null = False"
| "truthy (Bool b) = b"
| "truthy (Num n) = (n \<noteq> NaN \<and> n \<noteq> Fin 0)"
| "truthy (Str s) = (s \<noteq> [])"
| "truthy _ = True"

text \<open>
  \<open>a === b\<close>. \<open>NaN\<close> is not equal to itself; two objects are equal when they are
  the same object, which a freshly written literal never is, so an object on either side
  compares unequal here.
\<close>

fun strictEquals :: "jsval \<Rightarrow> jsval \<Rightarrow> bool" where
  "strictEquals Undefined Undefined = True"
| "strictEquals Null Null = True"
| "strictEquals (Bool a) (Bool b) = (a = b)"
| "strictEquals (Num a) (Num b) = (a \<noteq> NaN \<and> a = b)"
| "strictEquals (Str a) (Str b) = (a = b)"
| "strictEquals _ _ = False"

text \<open>\<open>xs.indexOf(v) !== -1\<close> for an array literal \<open>xs\<close>.\<close>

definition includesStrict :: "jsval list \<Rightarrow> jsval \<Rightarrow> bool" where
  "includesStrict xs v = list_ex (\<lambda>x. strictEquals x v) xs"

section \<open>Strings\<close>

definition isLower :: "char \<Rightarrow> bool" where
  "isLower c = (CHR ''a'' \<le> c \<and> c \<le> CHR ''z'')"

definition toLowerChar :: "char \<Rightarrow> char" where
  "toLowerChar c =
     (case map_of (zip ''ABCDEFGHIJKLMNOPQRSTUVWXYZ'' ''abcdefghijklmnopqrstuvwxyz'') c of
        Some d \<Rightarrow> d
      | None \<Rightarrow> c)"

definition toUpperChar :: "char \<Rightarrow> char" where
  "toUpperChar c =
     (case map_of (zip ''abcdefghijklmnopqrstuvwxyz'' ''ABCDEFGHIJKLMNOPQRSTUVWXYZ'') c of
        Some d \<Rightarrow> d
      | None \<Rightarrow> c)"

definition toLowerCase :: "string \<Rightarrow> string" where
  "toLowerCase s = map toLowerChar s"

definition toUpperCase :: "string \<Rightarrow> string" where
  "toUpperCase s = map toUpperChar s"

text \<open>White space and line terminators, as \<open>trim\<close> and the number grammar see them.\<close>

definition isWhiteSpace :: "char \<Rightarrow> bool" where
  "isWhiteSpace c = (c \<in> set [CHR 0x09, CHR 0x0A, CHR 0x0B, CHR 0x0C, CHR 0x0D, CHR '' ''])"

definition trim :: "string \<Rightarrow> string" where
  "trim s = rev (dropWhile isWhiteSpace (rev (dropWhile isWhiteSpace s)))"

text \<open>\<open>xs.join(sep)\<close> on an array of strings.\<close>

fun join :: "string \<Rightarrow> string list \<Rightarrow> string" where
  "join sep [] = []"
| "join sep [x] = x"
| "join sep (x # y # ys) = x @ sep @ join sep (y # ys)"

text \<open>\<open>s.split(',')\<close>: the pieces between the commas, at least one piece.\<close>

fun splitComma :: "string \<Rightarrow> string list" where
  "splitComma [] = [[]]"
| "splitComma (c # cs) =
     (if c = CHR '','' then [] # splitComma cs
      else (case splitComma cs of [] \<Rightarrow> [[c]] | p # ps \<Rightarrow> (c # p) # ps))"

text \<open>\<open>s.indexOf(p) === 0\<close>.\<close>

fun startsWith :: "string \<Rightarrow> string \<Rightarrow> bool" where
  "startsWith s [] = True"
| "startsWith [] (p # ps) = False"
| "startsWith (c # cs) (p # ps) = (c = p \<and> startsWith cs ps)"

text \<open>A match of the pattern anywhere in the string.\<close>

fun containsStr :: "string \<Rightarrow> string \<Rightarrow> bool" where
  "containsStr [] p = (p = [])"
| "containsStr (c # cs) p = (startsWith (c # cs) p \<or> containsStr cs p)"

section \<open>Numbers from strings\<close>

text \<open>
  \<open>ToNumber\<close> on a string follows the grammar \<open>StringNumericLiteral\<close>: optional white
  space around either nothing (the value 0), a signed decimal literal (digits, a fraction,
  an exponent, or \<open>Infinity\<close>) or an unsigned hexadecimal, octal or binary integer; every
  other string is \<open>NaN\<close>. The value computed here is the literal's mathematical value;
  its rounding to the nearest double is not modelled.
\<close>

definition isDigit :: "char \<Rightarrow> bool" where
  "isDigit c = (CHR ''0'' \<le> c \<and> c \<le> CHR ''9'')"

definition digitVal :: "char \<Rightarrow> nat" where
  "digitVal c =
     (if isDigit c then of_char c - 48
      else if isLower c then of_char c - 87
      else of_char c - 55)"

definition isDigitOfBase :: "nat \<Rightarrow> char \<Rightarrow> bool" where
  "isDigitOfBase b c =
     ((isDigit c \<or> (CHR ''a'' \<le> c \<and> c \<le> CHR ''f'') \<or> (CHR ''A'' \<le> c \<and> c \<le> CHR ''F''))
      \<and> digitVal c < b)"

fun digitsVal :: "nat \<Rightarrow> nat \<Rightarrow> string \<Rightarrow> nat" where
  "digitsVal b acc [] = acc"
| "digitsVal b acc (c # cs) = digitsVal b (b * acc + digitVal c) cs"

text \<open>The exponent part: absent, or \<open>e\<close>/\<open>E\<close>, an optional sign and at least one digit.\<close>

definition parseExponent :: "string \<Rightarrow> int option" where
  "parseExponent s =
     (case s of
        [] \<Rightarrow> Some 0
      | c # t \<Rightarrow>
          if c = CHR ''e'' \<or> c = CHR ''E'' then
            (let neg = (t \<noteq> [] \<and> hd t = CHR ''-'');
                 ds = (if t \<noteq> [] \<and> (hd t = CHR ''+'' \<or> hd t = CHR ''-'') then tl t else t)
             in if ds \<noteq> [] \<and> list_all isDigit ds
                then Some (if neg then - int (digitsVal 10 0 ds) else int (digitsVal 10 0 ds))
                else None)
          else None)"

definition scale10 :: "nat \<Rightarrow> int \<Rightarrow> real" where
  "scale10 m e = (if 0 \<le> e then real m * 10 ^ nat e else real m / 10 ^ nat (- e))"

definition parseUnsignedDecimal :: "string \<Rightarrow> jsnum" where
  "parseUnsignedDecimal s =
     (if s = ''Infinity'' then PosInf
      else
        let ip = takeWhile isDigit s;
            r1 = dropWhile isDigit s;
            hasDot = (r1 \<noteq> [] \<and> hd r1 = CHR ''.'');
            fp = (if hasDot then takeWhile isDigit (tl r1) else []);
            r2 = (if hasDot then dropWhile isDigit (tl r1) else r1)
        in if ip = [] \<and> fp = [] then NaN
           else (case parseExponent r2 of
                   None \<Rightarrow> NaN
                 | Some e \<Rightarrow> Fin (scale10 (digitsVal 10 0 (ip @ fp)) (e - int (length fp)))))"

definition negate :: "jsnum \<Rightarrow> jsnum" where
  "negate n = (case n of NaN \<Rightarrow> NaN | Fin x \<Rightarrow> Fin (- x) | PosInf \<Rightarrow> NegInf | NegInf \<Rightarrow> PosInf)"

definition parseDecimal :: "string \<Rightarrow> jsnum" where
  "parseDecimal s =
     (case s of
        [] \<Rightarrow> NaN
      | c # t \<Rightarrow>
          if c = CHR ''+'' then parseUnsignedDecimal t
          else if c = CHR ''-'' then negate (parseUnsignedDecimal t)
          else parseUnsignedDecimal s)"

definition parseRadix :: "nat \<Rightarrow> string \<Rightarrow> jsnum" where
  "parseRadix b ds =
     (if ds \<noteq> [] \<and> list_all (isDigitOfBase b) ds then Fin (real (digitsVal b 0 ds)) else NaN)"

definition stringToNumber :: "string \<Rightarrow> jsnum" where
  "stringToNumber s =
     (let t = trim s in
      if t = [] then Fin 0
      else if startsWith t ''0x'' \<or> startsWith t ''0X'' then parseRadix 16 (drop 2 t)
      else if startsWith t ''0o'' \<or> startsWith t ''0O'' then parseRadix 8 (drop 2 t)
      else if startsWith t ''0b'' \<or> startsWith t ''0B'' then parseRadix 2 (drop 2 t)
      else parseDecimal t)"

section \<open>What the connector takes from its environment\<close>

text \<open>
  \<open>moment(value)\<close> of the \<open>moment\<close> library: whether the text was understood as a
  calendar date (\<open>isValid()\<close>), and its Unix time in seconds (\<open>unix()\<close>).
\<close>

record moment_t =
  isValid :: bool
  unix :: jsnum

text \<open>
  Functions of the JavaScript runtime and of the libraries the connector calls, which are
  not part of this repository; every definition below takes them as a parameter:
  the decimal text of a finite number, the text of a Date, \<open>Date.parse\<close>,
  \<open>JSON.stringify\<close>, \<open>JSON.parse\<close> (\<open>None\<close> when it throws) and \<open>moment\<close>.
\<close>

record host =
  numberToString :: "real \<Rightarrow> string"
  dateToString :: "jsnum \<Rightarrow> string"
  dateParse :: "string \<Rightarrow> jsnum"
  jsonStringify :: "jsval \<Rightarrow> jsval"
  jsonParse :: "string \<Rightarrow> jsval option"
  moment :: "string \<Rightarrow> moment_t"

text \<open>\<open>String(v)\<close>, also what \<open>'text' + v\<close> appends.\<close>

fun toString :: "host \<Rightarrow> jsval \<Rightarrow> string" where
  "toString h Undefined = ''undefined''"
| "toString h Null = ''null''"
| "toString h (Bool b) = (if b then ''true'' else ''false'')"
| "toString h (Num n) =
     (case n of
        NaN \<Rightarrow> ''NaN''
      | Fin x \<Rightarrow> numberToString h x
      | PosInf \<Rightarrow> ''Infinity''
      | NegInf \<Rightarrow> ''-Infinity'')"
| "toString h (Str s) = s"
| "toString h (DateObj t) = dateToString h t"
| "toString h (Arr xs) =
     join '','' (map (\<lambda>x. if x = Undefined \<or> x = Null then [] else toString h x) xs)"
| "toString h (Obj fs) = ''[object Object]''"
| "toString h (ErrorObj m) = (if m = [] then ''Error'' else ''Error: '' @ m)"
| "toString h (InvalidParam m) = ''[object Object]''"

text \<open>\<open>Number(v)\<close>, \<open>+v\<close>: an object is converted through its text, a Date through its time value.\<close>

definition toNumber :: "host \<Rightarrow> jsval \<Rightarrow> jsnum" where
  "toNumber h v =
     (case v of
        Undefined \<Rightarrow> NaN
      | Null \<Rightarrow> Fin 0
      | Bool b \<Rightarrow> (if b then Fin 1 else Fin 0)
      | Num n \<Rightarrow> n
      | Str s \<Rightarrow> stringToNumber s
      | DateObj t \<Rightarrow> t
      | _ \<Rightarrow> stringToNumber (toString h v))"

definition isNaN :: "host \<Rightarrow> jsval \<Rightarrow> bool" where
  "isNaN h v = (toNumber h v = NaN)"

text \<open>\<open>a * b\<close> on numbers (the product of two finite numbers is not rounded here).\<close>

definition signOf :: "jsnum \<Rightarrow> int" where
  "signOf n = (case n of NaN \<Rightarrow> 0 | Fin x \<Rightarrow> (if x < 0 then -1 else if x = 0 then 0 else 1) | PosInf \<Rightarrow> 1 | NegInf \<Rightarrow> -1)"

definition times :: "jsnum \<Rightarrow> jsnum \<Rightarrow> jsnum" where
  "times a b =
     (case (a, b) of
        (Fin x, Fin y) \<Rightarrow> Fin (x * y)
      | _ \<Rightarrow>
          if a = NaN \<or> b = NaN \<or> signOf a * signOf b = 0 then NaN
          else if signOf a * signOf b > 0 then PosInf else NegInf)"

text \<open>\<open>new Date(v)\<close>.\<close>

definition timeClip :: "jsnum \<Rightarrow> jsnum" where
  "timeClip t =
     (case t of
        Fin x \<Rightarrow>
          if \<bar>x\<bar> > 8640000000000000 then NaN
          else Fin (of_int (if 0 \<le> x then \<lfloor>x\<rfloor> else \<lceil>x\<rceil>))
      | _ \<Rightarrow> NaN)"

definition newDate :: "host \<Rightarrow> jsval \<Rightarrow> jsval" where
  "newDate h v =
     (case v of
        DateObj t \<Rightarrow> DateObj t
      | Undefined \<Rightarrow> DateObj NaN
      | Null \<Rightarrow> DateObj (Fin 0)
      | Bool b \<Rightarrow> DateObj (timeClip (toNumber h v))
      | Num n \<Rightarrow> DateObj (timeClip n)
      | _ \<Rightarrow> DateObj (dateParse h (toString h v)))"

section \<open>Model definitions\<close>

text \<open>
  A property descriptor: \<open>property.type.name\<close>, whether \<open>property.id\<close> and
  \<open>property.index\<close> are truthy, \<open>property.length\<close>, \<open>property.limit\<close>, and the
  connector's section \<open>property.sqlite3\<close> with its \<open>dbDefault\<close> (each \<open>Undefined\<close>
  when not given). \<open>autoIncrement\<close> is read by the earlier variant of the connector only.
\<close>

record sqlite3_settings =
  dbDefault :: jsval

record property =
  type_name :: string
  is_id :: bool
  autoIncrement :: bool
  has_index :: bool
  prop_length :: jsval
  prop_limit :: jsval
  sqlite3 :: "sqlite3_settings option"

text \<open>
  An entry of \<open>settings.indexes\<close>: its \<open>columns\<close> text, or its \<open>keys\<close>, either an
  array of names or an object whose keys are the names.
\<close>

datatype index_keys = KeyArray "string list" | KeyObject "(string \<times> jsval) list"

record index_declaration =
  columns :: "string option"
  keys :: "index_keys option"

record model_settings =
  indexes :: "(string \<times> index_declaration) list option"

text \<open>
  The properties are listed in the order in which JavaScript enumerates the keys of the
  \<open>properties\<close> object (\<open>for ... in\<close>, \<open>Object.keys\<close>).
\<close>

record model_definition =
  properties :: "(string \<times> property) list"
  settings :: "model_settings option"

text \<open>
  \<open>columnMetadata(model, property)\<close>: the explicit column type \<open>dataType\<close> and its
  \<open>dataLength\<close>.
\<close>

record column_metadata =
  dataType :: "string option"
  dataLength :: jsval

text \<open>
  The methods the connector inherits from \<open>SqlConnector\<close> of the package
  \<open>loopback-connector\<close>, and the models registered with it.
\<close>

record base =
  getModelDefinition :: "string \<Rightarrow> model_definition"
  tableEscaped :: "string \<Rightarrow> string"
  column :: "string \<Rightarrow> string \<Rightarrow> string"
  columnMetadata :: "string \<Rightarrow> string \<Rightarrow> column_metadata option"
  isNullable :: "property \<Rightarrow> bool"

section \<open>Names and literals (lib/sqlite3.js)\<close>

text \<open>\<open>dbName\<close>: an empty name is returned as it is.\<close>

definition dbName :: "string \<Rightarrow> string" where
  "dbName name = (if name = [] then name else toLowerCase name)"

text \<open>\<open>name.replace(/["]/g, '""')\<close>: a new string, every double quote doubled.\<close>

definition replaceQuotes :: "string \<Rightarrow> string" where
  "replaceQuotes name = concat (map (\<lambda>c. if c = CHR 0x22 then [c, c] else [c]) name)"

text \<open>
  \<open>escapeName\<close>: \<open>if (!name) return name; name.replace(/["]/g, '""'); return '"' + name + '"';\<close>
  The string that \<open>replace\<close> returns is not assigned to anything.
\<close>

definition escapeName :: "string \<Rightarrow> string" where
  "escapeName name =
     (if name = [] then name
      else let unused = replaceQuotes name in ''\"'' @ name @ ''\"'')"

text \<open>\<open>escapeValue\<close> returns its argument in each of its three branches.\<close>

definition escapeValue :: "jsval \<Rightarrow> jsval" where
  "escapeValue v = v"

text \<open>
  The earlier variant of the connector: \<open>escapeIdentifier\<close> appends every character to
  an opening quote, a double quote twice, and closes the quote; \<open>escapeName\<close> calls it.
\<close>

definition escapeIdentifier :: "string \<Rightarrow> string" where
  "escapeIdentifier str =
     foldl (\<lambda>escaped c. if c = CHR 0x22 then escaped @ [c, c] else escaped @ [c]) ''\"'' str
     @ ''\"''"

definition escapeName_legacy :: "string \<Rightarrow> string" where
  "escapeName_legacy name = (if name = [] then name else escapeIdentifier name)"

section \<open>Type and value coercion (lib/sqlite3.js)\<close>

text \<open>
  An error value: an \<open>Error\<close> object with its message, returned or handed to a
  callback, or a \<open>TypeError\<close> thrown by a property access on \<open>undefined\<close>.
\<close>

datatype error = Error string | TypeError

text \<open>\<open>_convertBoolean\<close>: 1, 0, or an \<open>Error\<close> object, which is returned, not thrown.\<close>

definition booleanTrue :: "jsval list" where
  "booleanTrue = [Str ''t'', Str ''T'', Str ''y'', Str ''Y'', Str ''1'', Num (Fin 1), Bool True]"

definition booleanFalse :: "jsval list" where
  "booleanFalse = [Str ''f'', Str ''F'', Str ''n'', Str ''N'', Str ''0'', Num (Fin 0), Bool False]"

definition convertBoolean :: "host \<Rightarrow> jsval \<Rightarrow> jsval" where
  "convertBoolean h v =
     (if includesStrict booleanTrue v then Num (Fin 1)
      else if includesStrict booleanFalse v then Num (Fin 0)
      else ErrorObj (''SQLITE3: Invalid boolean default: '' @ toString h v))"

text \<open>
  \<open>toColumnValue(property, value)\<close>; \<open>property\<close> is \<open>None\<close> when the caller has no
  descriptor. \<open>value == null\<close> holds of \<open>null\<close> and \<open>undefined\<close>.
\<close>

definition toColumnValue :: "host \<Rightarrow> property option \<Rightarrow> jsval \<Rightarrow> jsval" where
  "toColumnValue h property v =
     (if v = Null \<or> v = Undefined then Null
      else case property of
        None \<Rightarrow> v
      | Some p \<Rightarrow>
          if type_name p = ''Number'' then
            (if isNaN h v then InvalidParam (''SQLITE3: Invalid number: '' @ toString h v)
             else Num (toNumber h v))
          else if type_name p = ''Boolean'' then convertBoolean h v
          else if type_name p = ''String'' then v
          else if type_name p \<in> set [''GeoPoint'', ''Point'', ''List'', ''Object'', ''ModelConstructor'']
            then jsonStringify h v
          else if type_name p = ''JSON'' then
            (case jsonParse h (toString h v) of
               None \<Rightarrow> InvalidParam (''SQLITE3: Invalid JSON: '' @ toString h v)
             | Some parsed \<Rightarrow> Str (toString h v))
          else if type_name p = ''Date'' then
            (if \<not> isNaN h v then Num (toNumber h v)
             else case v of
               Str s \<Rightarrow>
                 (let parsedValue = moment h s in
                  if \<not> isValid parsedValue then Num (times (unix parsedValue) (Fin 1000))
                  else InvalidParam (''SQLITE3: Invalid JSON: '' @ toString h v))
             | _ \<Rightarrow> InvalidParam (''SQLITE3: Invalid JSON: '' @ toString h v))
          else v)"

text \<open>
  \<open>fromColumnValue(property, value)\<close>. \<open>JSON.parse\<close> throws a \<open>SyntaxError\<close> on text
  that is not JSON; the exception is the \<open>Inl\<close> result.
\<close>

datatype exn = SyntaxError

definition fromColumnValue :: "host \<Rightarrow> property option \<Rightarrow> jsval \<Rightarrow> exn + jsval" where
  "fromColumnValue h property v =
     (if v = Null \<or> property = None then Inr v
      else let p = the property in
        if type_name p = ''Number'' then Inr (Num (toNumber h v))
        else if type_name p = ''Boolean'' then
          Inr (Bool (strictEquals v (Str ''Y'') \<or> strictEquals v (Str ''y'') \<or>
                     strictEquals v (Str ''T'') \<or> strictEquals v (Str ''t'') \<or>
                     strictEquals v (Str ''1'') \<or> strictEquals v (Num (Fin 1))))
        else if type_name p = ''String'' then Inr (Str (toString h v))
        else if type_name p \<in> set [''GeoPoint'', ''Point'', ''List'', ''Array'', ''Object'',
                                    ''ModelConstructor'']
          then (case jsonParse h (toString h v) of
                  None \<Rightarrow> Inl SyntaxError
                | Some parsed \<Rightarrow> Inr parsed)
        else if type_name p = ''JSON'' then Inr (Str (toString h v))
        else if type_name p = ''Date'' then Inr (newDate h v)
        else Inr v)"

text \<open>
  The earlier variant of the connector (written from a PostgreSQL connector): its
  \<open>toColumnValue\<close> answers a \<open>null\<close> or \<open>undefined\<close> value of an identifier or
  auto-increment property with \<open>new ParameterizedSQL('DEFAULT')\<close>. This is the
  first statement of that function, \<open>if (val == null) { ... }\<close>; the result is
  \<open>None\<close> when the statement does not return.
\<close>

datatype legacy_column_value = ParameterizedSQL string | Plain jsval

definition toColumnValue_legacy_null :: "property \<Rightarrow> jsval \<Rightarrow> legacy_column_value option" where
  "toColumnValue_legacy_null prop v =
     (if v = Null \<or> v = Undefined then
        (if autoIncrement prop \<or> is_id prop then Some (ParameterizedSQL ''DEFAULT'')
         else Some (Plain Null))
      else None)"

section \<open>Column and table DDL (lib/sqlite3.js)\<close>

text \<open>
  \<open>util.format(f, args...)\<close> for string arguments: a lone format string is returned as
  it is; otherwise each \<open>%s\<close> takes the next argument (and stays when none is left),
  \<open>%%\<close> is a percent sign, and the arguments left over are appended after a space each.
  The format strings of the connector hold no other directive.
\<close>

fun formatWith :: "string \<Rightarrow> string list \<Rightarrow> string" where
  "formatWith [] args = concat (map (\<lambda>a. CHR '' '' # a) args)"
| "formatWith [c] args = c # formatWith [] args"
| "formatWith (c # d # cs) args =
     (if c = CHR ''%'' \<and> d = CHR ''%'' then CHR ''%'' # formatWith cs args
      else if c = CHR ''%'' \<and> d = CHR ''s'' then
        (case args of
           [] \<Rightarrow> c # d # formatWith cs []
         | a # rest \<Rightarrow> a @ formatWith cs rest)
      else c # formatWith (d # cs) args)"

definition fmt :: "string \<Rightarrow> string list \<Rightarrow> string" where
  "fmt f args = (if args = [] then f else formatWith f args)"

text \<open>\<open>_getDefaultClause(property)\<close>: the clause, or an \<open>Error\<close> object.\<close>

definition getDefaultClause :: "host \<Rightarrow> property option \<Rightarrow> error + string" where
  "getDefaultClause h property =
     (if property = None \<or> sqlite3 (the property) = None
         \<or> \<not> truthy (dbDefault (the (sqlite3 (the property)))) then Inr []
      else
        let p = the property; v = dbDefault (the (sqlite3 p)) in
        if type_name p = ''Number'' then
          (if isNaN h v then Inl (Error (''Invalid numeric default: '' @ toString h v))
           else Inr ('' DEFAULT '' @ toString h (Num (toNumber h v))))
        else if type_name p = ''Boolean'' then
          Inr (''DEFAULT '' @ toString h (convertBoolean h v))
        else if type_name p = ''Date'' then
          (if strictEquals v (Str ''now'') then
             Inr '' DEFAULT (CAST(STRFTIME('%s', 'now') AS INTEGER)*1000)''
           else if \<not> isNaN h v then Inr ('' DEFAULT '' @ toString h v)
           else case v of
             Str s \<Rightarrow>
               if \<not> isNaN h v then Inr ('' DEFAULT '' @ toString h (Num (toNumber h v)))
               else
                 (let parsedValue = moment h s in
                  if \<not> isValid parsedValue then
                    Inr ('' DEFAULT '' @ toString h (Num (times (unix parsedValue) (Fin 1000))))
                  else Inl (Error (''Invalid date default: '' @ toString h v)))
           | _ \<Rightarrow> Inl (Error (''Invalid date default: '' @ toString h v)))
        else if type_name p = ''String'' then
          Inr (''DEFAULT \"'' @ toString h (escapeValue v) @ ''\"'')
        else Inl (Error (''Default value for '' @ type_name p @ '' is not supported'')))"

text \<open>\<open>_buildColumnType(property)\<close>.\<close>

definition buildColumnType :: "property \<Rightarrow> string" where
  "buildColumnType p =
     (if type_name p = ''Number'' then (if is_id p then ''INTEGER'' else ''REAL'')
      else if type_name p = ''Boolean'' \<or> type_name p = ''Date'' then ''INTEGER''
      else if type_name p \<in> set [''String'', ''GeoPoint'', ''Point'', ''List'', ''Array'',
                                  ''Object'', ''JSON''] then ''TEXT''
      else ''TEXT'')"

text \<open>\<open>a || b\<close> on values.\<close>

definition orElse :: "jsval \<Rightarrow> jsval \<Rightarrow> jsval" where
  "orElse a b = (if truthy a then a else b)"

text \<open>
  \<open>_columnDataType(model, propertyName)\<close>: \<open>None\<close> is the \<open>null\<close> returned for a
  name that is not a property of the model.
\<close>

definition columnDataType :: "host \<Rightarrow> base \<Rightarrow> string \<Rightarrow> string \<Rightarrow> string option" where
  "columnDataType h b model propertyName =
     (let meta = columnMetadata b model propertyName;
          colType = (case meta of None \<Rightarrow> None | Some m \<Rightarrow> dataType m);
          colType = (case colType of
                       None \<Rightarrow> None
                     | Some t \<Rightarrow> if t \<noteq> [] then Some (toUpperCase t) else Some t)
      in case map_of (properties (getModelDefinition b model)) propertyName of
           None \<Rightarrow> None
         | Some property \<Rightarrow>
             (let colLength =
                    orElse (orElse (case meta of None \<Rightarrow> Undefined | Some m \<Rightarrow> dataLength m)
                                   (prop_length property))
                           (prop_limit property)
              in if colType \<noteq> None \<and> the colType \<noteq> [] \<and> truthy colLength
                 then Some (the colType @ ''('' @ toString h colLength @ '')'')
                 else Some (buildColumnType property)))"

text \<open>
  \<open>_buildColumnDefinition(model, propertyName)\<close>. The function reads \<open>property.id\<close>,
  which throws when the name is not a property of the model.
\<close>

definition buildColumnDefinition :: "host \<Rightarrow> base \<Rightarrow> string \<Rightarrow> string \<Rightarrow> error + string" where
  "buildColumnDefinition h b model propertyName =
     (let property = map_of (properties (getModelDefinition b model)) propertyName in
      case getDefaultClause h property of
        Inl e \<Rightarrow> Inl e
      | Inr defaultClause \<Rightarrow>
          (case property of
             None \<Rightarrow> Inl TypeError
           | Some p \<Rightarrow>
               Inr (''\"'' @ column b model propertyName @ ''\" ''
                    @ (case columnDataType h b model propertyName of None \<Rightarrow> ''null'' | Some t \<Rightarrow> t)
                    @ defaultClause
                    @ (if isNullable b p then [] else '' NOT NULL'')
                    @ (if is_id p then '' PRIMARY KEY'' else []))))"

text \<open>
  \<open>buildColumnDefinitions(model)\<close>: the loop over the property names returns the first
  \<open>Error\<close> it meets.
\<close>

fun columnDefinitionLines :: "host \<Rightarrow> base \<Rightarrow> string \<Rightarrow> string list \<Rightarrow> error + string list" where
  "columnDefinitionLines h b model [] = Inr []"
| "columnDefinitionLines h b model (propertyName # names) =
     (case buildColumnDefinition h b model propertyName of
        Inl e \<Rightarrow> Inl e
      | Inr colDef \<Rightarrow>
          (case columnDefinitionLines h b model names of
             Inl e \<Rightarrow> Inl e
           | Inr line \<Rightarrow> Inr (colDef # line)))"

definition buildColumnDefinitions :: "host \<Rightarrow> base \<Rightarrow> string \<Rightarrow> error + string" where
  "buildColumnDefinitions h b model =
     (case columnDefinitionLines h b model (map fst (properties (getModelDefinition b model))) of
        Inl e \<Rightarrow> Inl e
      | Inr line \<Rightarrow> Inr (join '','' line))"

text \<open>The local function \<open>escape(name)\<close>: \<open>self.escapeName(name.toLowerCase())\<close>.\<close>

definition escapeLower :: "string \<Rightarrow> string" where
  "escapeLower name = escapeName (toLowerCase name)"

text \<open>
  \<open>_buildColumnIndexes(model)\<close>, first loop: one statement for every property with a
  non-empty name and a truthy \<open>index\<close>.
\<close>

fun propertyIndexes :: "base \<Rightarrow> string \<Rightarrow> (string \<times> property) list \<Rightarrow> string list" where
  "propertyIndexes b model [] = []"
| "propertyIndexes b model ((propertyName, property) # rest) =
     (if propertyName = [] then propertyIndexes b model rest
      else if has_index property then
        fmt ''CREATE INDEX IF NOT EXISTS %s ON %s (%s)''
          [escapeLower (model @ ''_'' @ propertyName), tableEscaped b model,
           escapeLower propertyName]
        # propertyIndexes b model rest
      else propertyIndexes b model rest)"

text \<open>
  Second loop, over \<open>settings.indexes\<close>. \<open>var columns\<close> is declared in the loop body
  without a value, so it is one variable of the function and keeps the array of the
  previous entry when an entry has neither \<open>columns\<close> nor \<open>keys\<close>; it is the third
  argument here. Each name is replaced by \<open>self.dbName(name).trim()\<close>.
\<close>

fun settingsIndexes ::
  "base \<Rightarrow> string \<Rightarrow> string list option \<Rightarrow> (string \<times> index_declaration) list \<Rightarrow> string list" where
  "settingsIndexes b model cols [] = []"
| "settingsIndexes b model cols ((index, decl) # rest) =
     (if index = [] then settingsIndexes b model cols rest
      else
        let cols =
              (if columns decl \<noteq> None \<and> the (columns decl) \<noteq> [] then
                 Some (splitComma (the (columns decl)))
               else case keys decl of
                 Some (KeyArray ks) \<Rightarrow> Some ks
               | Some (KeyObject kvs) \<Rightarrow> Some (map fst kvs)
               | None \<Rightarrow> cols)
        in case cols of
             None \<Rightarrow> settingsIndexes b model cols rest
           | Some cs \<Rightarrow>
               (let cs = map (\<lambda>c. trim (dbName c)) cs in
                fmt ''CREATE INDEX IF NOT EXISTS %s ON %s (%s)''
                  [escapeLower (if index \<noteq> [] then index else model @ ''_'' @ join ''_'' cs),
                   tableEscaped b model, join '','' (map escapeLower cs)]
                # settingsIndexes b model (Some cs) rest))"

definition buildColumnIndexes :: "base \<Rightarrow> string \<Rightarrow> string list" where
  "buildColumnIndexes b model =
     propertyIndexes b model (properties (getModelDefinition b model))
     @ (case settings (getModelDefinition b model) of
          None \<Rightarrow> []
        | Some s \<Rightarrow>
            (case indexes s of
               None \<Rightarrow> []
             | Some ixs \<Rightarrow> settingsIndexes b model None ixs))"

text \<open>
  The statements of \<open>createTable(model)\<close>: \<open>CREATE TABLE\<close>, then the index statements;
  or the \<open>Error\<close> of the column definitions, handed to the callback before any statement
  is executed.
\<close>

definition createTableStatements :: "host \<Rightarrow> base \<Rightarrow> string \<Rightarrow> error + string list" where
  "createTableStatements h b model =
     (let tableName = tableEscaped b model in
      case buildColumnDefinitions h b model of
        Inl e \<Rightarrow> Inl e
      | Inr colDefs \<Rightarrow>
          Inr (fmt ''CREATE TABLE %s (%s)'' [tableName, colDefs] # buildColumnIndexes b model))"

section \<open>Executing statements (lib/sqlite3.js)\<close>

text \<open>
  The database is outside the connector. Every request to it is a call: opening a
  connection (\<open>new sqlite3.Database(file, mode, callback)\<close> in \<open>_getConnection\<close>),
  \<open>all\<close> or \<open>run\<close> of a statement with its bound parameters on a connection (no
  parameters when \<open>run\<close> is given the statement alone), and \<open>close\<close> of a
  connection. The backend answers a call, knowing the calls made so far, with the message
  of an error or with \<open>None\<close>; rows and counts are not needed by what follows and are
  left out. The connector holds its default connection, and a transaction holds the
  connection that \<open>beginTransaction\<close> opened for it.
\<close>

datatype connection = DefaultConnection | TransactionConnection

datatype call =
    GetConnection
  | All connection string "jsval list"
  | Run connection string "jsval list"
  | Close connection

type_synonym backend = "call list \<Rightarrow> call \<Rightarrow> string option"

text \<open>The connector's state: the calls made, and whether \<open>_defaultConnection\<close> is set.\<close>

record connector_state =
  trace :: "call list"
  defaultConnection :: bool

definition perform :: "backend \<Rightarrow> call \<Rightarrow> connector_state \<Rightarrow> string option \<times> connector_state" where
  "perform be c st = (be (trace st) c, st\<lparr>trace := trace st @ [c]\<rparr>)"

text \<open>\<open>connect(callback)\<close>.\<close>

definition connect :: "backend \<Rightarrow> connector_state \<Rightarrow> string option \<times> connector_state" where
  "connect be st =
     (if \<not> defaultConnection st then
        (case perform be GetConnection st of
           (Some err, st') \<Rightarrow> (Some err, st')
         | (None, st') \<Rightarrow> (None, st'\<lparr>defaultConnection := True\<rparr>))
      else (None, st))"

text \<open>
  The loop \<open>for (var p in params) if (params[p] instanceof InvalidParam) params[p] = null\<close>
  over the indices of the parameter array, which it updates in place.
\<close>

definition sanitizeParams :: "jsval list \<Rightarrow> jsval list" where
  "sanitizeParams params =
     fold (\<lambda>p ps. case ps ! p of InvalidParam msg \<Rightarrow> ps[p := Null] | _ \<Rightarrow> ps)
          [0 ..< length params] params"

text \<open>
  The options of a call: \<open>options.transaction\<close>, with its connection and whether its
  \<open>connector\<close> is this connector. (\<open>transation\<close> is the key under which
  \<open>_alterTable\<close> of lib/migration.js stores its handle; \<open>executeSQL\<close> does not read it.)
\<close>

record transaction_handle =
  connection :: connection
  connector_is_this :: bool

record execute_options =
  transaction :: "transaction_handle option"
  transation :: "transaction_handle option"

text \<open>
  \<open>executeWithConnection(client)\<close> and \<open>processResult\<close>: \<open>client.all\<close> for a statement
  that starts with \<open>select\<close> or \<open>pragma\<close>, \<open>client.run\<close> otherwise; the message of
  a uniqueness error gets a suffix.
\<close>

definition executeWithConnection ::
  "backend \<Rightarrow> string \<Rightarrow> jsval list \<Rightarrow> connection \<Rightarrow> connector_state \<Rightarrow> error option \<times> connector_state" where
  "executeWithConnection be sql params client st =
     (let stmtType = toLowerCase (trim sql);
          c = (if startsWith stmtType ''select'' \<or> startsWith stmtType ''pragma''
               then All client sql params else Run client sql params)
      in case perform be c st of
           (None, st') \<Rightarrow> (None, st')
         | (Some message, st') \<Rightarrow>
             (Some (Error (if containsStr (toLowerCase message) ''unique constraint failed''
                           then message @ '' (duplicate value)'' else message)), st'))"

text \<open>
  \<open>executeSQL(sql, params, options, callback)\<close>; the result is the \<open>err\<close> given to the
  callback. (Called without \<open>params\<close>, the function takes \<open>[]\<close> for them.) When
  \<open>connect\<close> fails, \<open>connection\<close> and \<open>self._defaultConnection\<close> are
  both \<open>undefined\<close>, the two are equal, and \<open>self._defaultConnection.close()\<close> throws.
\<close>

definition executeSQL ::
  "backend \<Rightarrow> string \<Rightarrow> jsval list \<Rightarrow> execute_options \<Rightarrow> connector_state \<Rightarrow> error option \<times> connector_state" where
  "executeSQL be sql params options st =
     (let params = sanitizeParams params in
      case transaction options of
        Some t \<Rightarrow>
          if connector_is_this t then executeWithConnection be sql params (connection t) st
          else (case connect be st of
                  (Some err, st') \<Rightarrow> (Some TypeError, st')
                | (None, st') \<Rightarrow> executeWithConnection be sql params DefaultConnection st')
      | None \<Rightarrow>
          (case connect be st of
             (Some err, st') \<Rightarrow> (Some TypeError, st')
           | (None, st') \<Rightarrow> executeWithConnection be sql params DefaultConnection st'))"

section \<open>Running tasks in series\<close>

text \<open>
  \<open>async.series\<close> and \<open>async.eachSeries\<close>: the tasks run one after the other, and the
  first error ends the run.
\<close>

type_synonym task = "connector_state \<Rightarrow> error option \<times> connector_state"

fun series :: "task list \<Rightarrow> task" where
  "series [] st = (None, st)"
| "series (t # ts) st =
     (case t st of
        (Some err, st') \<Rightarrow> (Some err, st')
      | (None, st') \<Rightarrow> series ts st')"

text \<open>\<open>createTable(model, options, cb)\<close>.\<close>

definition createTable :: "backend \<Rightarrow> host \<Rightarrow> base \<Rightarrow> string \<Rightarrow> execute_options \<Rightarrow> task" where
  "createTable be h b model options st =
     (case createTableStatements h b model of
        Inl e \<Rightarrow> (Some e, st)
      | Inr stmts \<Rightarrow> series (map (\<lambda>stmt. executeSQL be stmt [] options) stmts) st)"

section \<open>Transactions (src/unnamed/part_001)\<close>

text \<open>
  The transaction mixin (src/unnamed/part_001, which lib/sqlite3.js requires as
  \<open>./transaction\<close>). \<open>beginTransaction(isolationLevel, cb)\<close> opens a connection of its
  own with \<open>_getConnection\<close> and runs \<open>'BEGIN ' + isolationLevel + ' TRANSACTION'\<close> on
  it; either step can fail, and the error goes to the callback. Called without a level
  (\<open>None\<close>) it takes \<open>'DEFERRED'\<close>.
\<close>

definition beginTransaction ::
  "backend \<Rightarrow> string option \<Rightarrow> connector_state \<Rightarrow> (error + connection) \<times> connector_state" where
  "beginTransaction be isolationLevel st =
     (let isolationLevel = (case isolationLevel of None \<Rightarrow> ''DEFERRED'' | Some level \<Rightarrow> level) in
      case perform be GetConnection st of
        (Some message, st') \<Rightarrow> (Inl (Error message), st')
      | (None, st') \<Rightarrow>
          (case perform be (Run TransactionConnection
                              (''BEGIN '' @ isolationLevel @ '' TRANSACTION'') []) st' of
             (Some message, st'') \<Rightarrow> (Inl (Error message), st'')
           | (None, st'') \<Rightarrow> (Inr TransactionConnection, st'')))"

text \<open>
  \<open>releaseConnection(connection, err)\<close> calls \<open>connection.release()\<close>. Only
  \<open>beginTransaction\<close> gives a connection this method (bound to \<open>connection.close\<close>),
  and it gives it to the connection it opened; on the default connection the call throws.
  Nothing is read from \<open>close\<close>.
\<close>

definition releaseConnection ::
  "backend \<Rightarrow> connection \<Rightarrow> connector_state \<Rightarrow> error option \<times> connector_state" where
  "releaseConnection be conn st =
     (case conn of
        TransactionConnection \<Rightarrow> (None, snd (perform be (Close conn) st))
      | DefaultConnection \<Rightarrow> (Some TypeError, st))"

text \<open>
  \<open>commit(connection, cb)\<close> and \<open>rollback(connection, cb)\<close> run their statement on the
  connection, release the connection whether or not the statement failed, and then give
  the statement's error to the callback.
\<close>

definition commit :: "backend \<Rightarrow> connection \<Rightarrow> task" where
  "commit be conn st =
     (case perform be (Run conn ''COMMIT'' []) st of
        (err, st') \<Rightarrow>
          (case releaseConnection be conn st' of
             (Some thrown, st'') \<Rightarrow> (Some thrown, st'')
           | (None, st'') \<Rightarrow> (map_option Error err, st'')))"

definition rollback :: "backend \<Rightarrow> connection \<Rightarrow> task" where
  "rollback be conn st =
     (case perform be (Run conn ''ROLLBACK'' []) st of
        (err, st') \<Rightarrow>
          (case releaseConnection be conn st' of
             (Some thrown, st'') \<Rightarrow> (Some thrown, st'')
           | (None, st'') \<Rightarrow> (map_option Error err, st'')))"

section \<open>The alteration (lib/migration.js)\<close>

text \<open>\<open>_alterTable(model, done)\<close>; the result is the \<open>err\<close> given to \<open>done\<close>.\<close>

definition renameOldTable :: "backend \<Rightarrow> execute_options \<Rightarrow> string \<Rightarrow> string \<Rightarrow> task" where
  "renameOldTable be txOptions oldName newName =
     executeSQL be (fmt ''ALTER TABLE %s RENAME TO %s'' [oldName, newName]) [] txOptions"

definition copyRecords :: "backend \<Rightarrow> base \<Rightarrow> string \<Rightarrow> execute_options \<Rightarrow> string \<Rightarrow> string \<Rightarrow> task" where
  "copyRecords be b model txOptions oldName newName =
     (let props = join '','' (map (\<lambda>name. escapeLower name)
                                 (map fst (properties (getModelDefinition b model))))
      in executeSQL be (fmt ''INSERT INTO %s SELECT %s FROM %s'' [oldName, props, newName])
           [] txOptions)"

definition dropOldTable :: "backend \<Rightarrow> execute_options \<Rightarrow> string \<Rightarrow> task" where
  "dropOldTable be txOptions newName =
     executeSQL be (fmt ''DROP TABLE %s'' [newName]) [] txOptions"

definition alterTable :: "backend \<Rightarrow> host \<Rightarrow> base \<Rightarrow> string \<Rightarrow> task" where
  "alterTable be h b model st =
     (case beginTransaction be (Some ''EXCLUSIVE'') st of
        (Inl err, st') \<Rightarrow> (Some err, st')
      | (Inr conn, st') \<Rightarrow>
          (let txOptions = \<lparr>transaction = None,
                            transation = Some \<lparr>connection = conn, connector_is_this = True\<rparr>\<rparr>;
               oldName = escapeLower model;
               newName = escapeLower (model @ ''_old'')
           in series
                [renameOldTable be txOptions oldName newName,
                 createTable be h b model txOptions,
                 copyRecords be b model txOptions oldName newName,
                 dropOldTable be txOptions newName,
                 commit be conn] st'))"

text \<open>
  The later variant of lib/migration.js, \<open>_alterTable(model, txOptions, done)\<close>:
  \<open>autoupdate\<close> begins and ends the transaction and hands its options down; the four
  steps are the same.
\<close>

definition alterTable_in_transaction ::
  "backend \<Rightarrow> host \<Rightarrow> base \<Rightarrow> string \<Rightarrow> execute_options \<Rightarrow> task" where
  "alterTable_in_transaction be h b model txOptions =
     (let oldName = escapeLower model;
          newName = escapeLower (model @ ''_old'')
      in series
           [renameOldTable be txOptions oldName newName,
            createTable be h b model txOptions,
            copyRecords be b model txOptions oldName newName,
            dropOldTable be txOptions newName])"

section \<open>Notions used in the statements and proofs\<close>

text \<open>\<open>v instanceof InvalidParam\<close>.\<close>

definition isInvalidParam :: "jsval \<Rightarrow> bool" where
  "isInvalidParam v = (case v of InvalidParam msg \<Rightarrow> True | _ \<Rightarrow> False)"

text \<open>The statements given to \<open>client.all\<close> or \<open>client.run\<close>, with the parameters bound to them.\<close>

fun queries :: "call list \<Rightarrow> (string \<times> jsval list) list" where
  "queries [] = []"
| "queries (All client sql params # cs) = (sql, params) # queries cs"
| "queries (Run client sql params # cs) = (sql, params) # queries cs"
| "queries (c # cs) = queries cs"

text \<open>The calls that a run added to the trace of the state it started from.\<close>

definition callsSince :: "connector_state \<Rightarrow> connector_state \<Rightarrow> call list" where
  "callsSince st st' = drop (length (trace st)) (trace st')"

text \<open>
  A task runs the statements \<open>stmts\<close> when, from every state, it ends without an error
  and the statements it hands to the database are \<open>stmts\<close>, in this order.
\<close>

definition runs :: "task \<Rightarrow> string list \<Rightarrow> bool" where
  "runs t stmts =
     (\<forall>st. \<exists>cs. fst (t st) = None \<and> trace (snd (t st)) = trace st @ cs
                 \<and> map fst (queries cs) = stmts)"

text \<open>A backend that accepts every call.\<close>

definition accepting :: backend where
  "accepting tr c = None"

section \<open>Example inputs\<close>

text \<open>The decimal digits of a natural number.\<close>

fun decimal :: "nat \<Rightarrow> string" where
  "decimal n =
     (if n < 10 then [char_of (48 + n)]
      else decimal (n div 10) @ [char_of (48 + n mod 10)])"

text \<open>
  A host for the examples. Whole numbers are printed in decimal (the examples print no
  other number); \<open>moment\<close> understands the one text \<open>2015-01-01\<close> (1420070400 seconds
  after the epoch) and answers every other text with an invalid moment, whose \<open>unix()\<close>
  is \<open>NaN\<close>. The examples use neither the text of a Date nor JSON: \<open>Date.parse\<close>
  understands nothing, \<open>JSON.parse\<close> throws and \<open>JSON.stringify\<close> gives
  \<open>undefined\<close>.
\<close>

definition exampleHost :: host where
  "exampleHost =
     \<lparr>numberToString =
        (\<lambda>x. (if x < 0 then ''-'' else []) @ decimal (nat \<lfloor>\<bar>x\<bar>\<rfloor>)),
      dateToString = (\<lambda>t. ''Invalid Date''),
      dateParse = (\<lambda>s. NaN),
      jsonStringify = (\<lambda>v. Undefined),
      jsonParse = (\<lambda>s. None),
      moment = (\<lambda>s. if s = ''2015-01-01'' then \<lparr>isValid = True, unix = Fin 1420070400\<rparr>
                      else \<lparr>isValid = False, unix = NaN\<rparr>)\<rparr>"

definition exampleProperty :: "string \<Rightarrow> property" where
  "exampleProperty t =
     \<lparr>type_name = t, is_id = False, autoIncrement = False, has_index = False,
      prop_length = Undefined, prop_limit = Undefined, sqlite3 = None\<rparr>"

definition exampleDefault :: "string \<Rightarrow> jsval \<Rightarrow> property" where
  "exampleDefault t v = (exampleProperty t)\<lparr>sqlite3 := Some \<lparr>dbDefault = v\<rparr>\<rparr>"

text \<open>
  The model \<open>UserData\<close> of test/sqlite.migration.test.js, cut down to three properties,
  with the base connector's default naming (lower-cased names, every property but the
  identifier nullable, no column metadata).
\<close>

definition exampleModel :: model_definition where
  "exampleModel =
     \<lparr>properties =
        [(''id'', (exampleProperty ''Number'')\<lparr>is_id := True\<rparr>),
         (''email'', (exampleProperty ''String'')\<lparr>has_index := True\<rparr>),
         (''createdByAdmin'', exampleProperty ''Boolean'')],
      settings = None\<rparr>"

definition exampleBase :: base where
  "exampleBase =
     \<lparr>getModelDefinition = (\<lambda>model. exampleModel),
      tableEscaped = (\<lambda>model. escapeName (dbName model)),
      column = (\<lambda>model propertyName. dbName propertyName),
      columnMetadata = (\<lambda>model propertyName. None),
      isNullable = (\<lambda>p. \<not> is_id p)\<rparr>"

text \<open>A model with a Number property whose default is not a number.\<close>

definition exampleInvalidModel :: model_definition where
  "exampleInvalidModel =
     \<lparr>properties = [(''defaultInt'', exampleDefault ''Number'' (Str ''not-a-number''))],
      settings = None\<rparr>"

definition exampleInvalidBase :: base where
  "exampleInvalidBase = exampleBase\<lparr>getModelDefinition := (\<lambda>model. exampleInvalidModel)\<rparr>"

definition freshState :: connector_state where
  "freshState = \<lparr>trace = [], defaultConnection = False\<rparr>"

section \<open>Escaping identifiers\<close>

text \<open>\<open>escapeName\<close> wraps a non-empty name in double quotes and changes nothing inside.\<close>

lemma escapeName_wraps:
  "name \<noteq> [] \<Longrightarrow> escapeName name = ''\"'' @ name @ ''\"''"
  by (simp add: escapeName_def)

text \<open>
  Claim C4. The claim asks for every double quote inside the identifier to be doubled.
  \<open>escapeName\<close> of lib/sqlite3.js computes the doubled string with \<open>replace\<close> and drops
  it: for the identifier \<open>a"b\<close> it returns \<open>"a"b"\<close>, where the claim has \<open>"a""b"\<close>.
\<close>

theorem escapeName_quote_not_doubled:
  "escapeName ''a\"b'' = ''\"a\"b\"'' \<and> escapeName ''a\"b'' \<noteq> ''\"a\"\"b\"''"
  by (simp add: escapeName_def)

text \<open>The earlier variant's \<open>escapeIdentifier\<close> does double the quotes.\<close>

lemma foldl_escape_acc:
  "foldl (\<lambda>escaped c. if c = CHR 0x22 then escaped @ [c, c] else escaped @ [c]) acc str
   = acc @ replaceQuotes str"
  by (induction str arbitrary: acc) (simp_all add: replaceQuotes_def)

lemma escapeIdentifier_doubles:
  "escapeIdentifier str = ''\"'' @ replaceQuotes str @ ''\"''"
  by (simp add: escapeIdentifier_def foldl_escape_acc)

lemma escapeName_legacy_example:
  "escapeName_legacy ''a\"b'' = ''\"a\"\"b\"''"
  by (simp add: escapeName_legacy_def escapeIdentifier_def)

section \<open>Writing null\<close>

text \<open>
  Claim C3, as stated, fails on \<open>toColumnValue\<close> of lib/sqlite3.js: for an identifier
  property, and for an auto-increment property, a \<open>null\<close> or \<open>undefined\<close> value is
  written as NULL, not as a marker.
\<close>

theorem toColumnValue_null_marker_counterexample:
  "is_id ((exampleProperty ''Number'')\<lparr>is_id := True\<rparr>) \<and>
   toColumnValue exampleHost (Some ((exampleProperty ''Number'')\<lparr>is_id := True\<rparr>)) Null = Null \<and>
   autoIncrement ((exampleProperty ''Number'')\<lparr>autoIncrement := True\<rparr>) \<and>
   toColumnValue exampleHost (Some ((exampleProperty ''Number'')\<lparr>autoIncrement := True\<rparr>))
     Undefined = Null"
  by (simp add: toColumnValue_def)

text \<open>
  Claim C3, amended. For every property descriptor, identifier and auto-increment
  properties included, and when there is no descriptor, \<open>toColumnValue\<close> of
  lib/sqlite3.js maps a \<open>null\<close> or \<open>undefined\<close> value to NULL.
\<close>

theorem toColumnValue_null:
  assumes "v = Null \<or> v = Undefined"
  shows "toColumnValue h property v = Null"
  using assms by (auto simp: toColumnValue_def)

theorem toColumnValue_null_witness:
  "toColumnValue exampleHost (Some ((exampleProperty ''Number'')\<lparr>is_id := True\<rparr>)) Undefined = Null \<and>
   toColumnValue exampleHost None Null = Null"
  using toColumnValue_null [of Undefined exampleHost "Some ((exampleProperty ''Number'')\<lparr>is_id := True\<rparr>)"]
        toColumnValue_null [of Null exampleHost None]
  by simp

text \<open>
  The marker of the claim is that of the earlier variant of the connector, whose
  \<open>toColumnValue\<close> answers \<open>null\<close> for an identifier or auto-increment property with
  \<open>ParameterizedSQL('DEFAULT')\<close>.
\<close>

lemma toColumnValue_legacy_null_marker:
  assumes "v = Null \<or> v = Undefined"
  shows "toColumnValue_legacy_null prop v =
           Some (if autoIncrement prop \<or> is_id prop then ParameterizedSQL ''DEFAULT''
                 else Plain Null)"
  using assms by (auto simp: toColumnValue_legacy_null_def)

section \<open>Writing dates\<close>

lemma isNaN_Str: "isNaN h (Str s) = (stringToNumber s = NaN)"
  by (simp add: isNaN_def toNumber_def)

lemma stringToNumber_empty: "stringToNumber [] = Fin 0"
  by (simp add: stringToNumber_def trim_def)

lemma not_numeric_examples:
  "stringToNumber ''2015-01-01'' = NaN" "stringToNumber ''not a date'' = NaN"
  by (simp_all add: stringToNumber_def trim_def isWhiteSpace_def parseDecimal_def
      parseUnsignedDecimal_def isDigit_def parseExponent_def)

lemma exampleHost_moment:
  "isValid (moment exampleHost ''2015-01-01'')"
  "\<not> isValid (moment exampleHost ''not a date'')"
  "unix (moment exampleHost ''not a date'') = NaN"
  by (simp_all add: exampleHost_def)

text \<open>A number written to a Date property is stored as it is.\<close>

lemma toColumnValue_Date_number:
  assumes "type_name p = ''Date''" and "n \<noteq> NaN"
  shows "toColumnValue h (Some p) (Num n) = Num n"
  using assms by (simp add: toColumnValue_def isNaN_def toNumber_def)

text \<open>
  Claim C2. The claim has a string that parses as a calendar date stored as its epoch
  milliseconds and a string that does not parse answered with \<open>InvalidParam\<close>. The test
  in \<open>toColumnValue\<close> is \<open>if (!parsedValue.isValid()) return parsedValue.unix() * 1000\<close>,
  the other way round: for a Date property and a string that is not numeric, a string that
  \<open>moment\<close> understands is answered with \<open>InvalidParam\<close>, and a string that it does
  not understand is stored as 1000 times the \<open>unix()\<close> of the invalid moment.
\<close>

theorem toColumnValue_Date_string:
  assumes "type_name p = ''Date''" and "stringToNumber s = NaN"
  shows "toColumnValue h (Some p) (Str s) =
           (if isValid (moment h s) then InvalidParam (''SQLITE3: Invalid JSON: '' @ s)
            else Num (times (unix (moment h s)) (Fin 1000)))"
  using assms by (simp add: toColumnValue_def isNaN_Str Let_def)

theorem toColumnValue_Date_string_witness:
  "type_name (exampleProperty ''Date'') = ''Date'' \<and>
   stringToNumber ''2015-01-01'' = NaN \<and> isValid (moment exampleHost ''2015-01-01'') \<and>
   toColumnValue exampleHost (Some (exampleProperty ''Date'')) (Str ''2015-01-01'')
     = InvalidParam ''SQLITE3: Invalid JSON: 2015-01-01'' \<and>
   stringToNumber ''not a date'' = NaN \<and> \<not> isValid (moment exampleHost ''not a date'') \<and>
   toColumnValue exampleHost (Some (exampleProperty ''Date'')) (Str ''not a date'') = Num NaN"
proof -
  have t: "type_name (exampleProperty ''Date'') = ''Date''"
    by (simp add: exampleProperty_def)
  show ?thesis
    using toColumnValue_Date_string [OF t not_numeric_examples(1), of exampleHost]
          toColumnValue_Date_string [OF t not_numeric_examples(2), of exampleHost]
    by (simp add: t exampleHost_moment not_numeric_examples times_def signOf_def)
qed

section \<open>Booleans written and read back\<close>

text \<open>
  Claim C8. For a Boolean property, writing any of \<open>1\<close>, \<open>true\<close>, \<open>"T"\<close>, \<open>"y"\<close>
  with \<open>toColumnValue\<close> and reading the stored value with \<open>fromColumnValue\<close> gives
  \<open>true\<close>; writing any of \<open>0\<close>, \<open>false\<close>, \<open>"F"\<close>, \<open>"n"\<close> and reading it back
  gives \<open>false\<close>.
\<close>

theorem boolean_round_trip:
  assumes "type_name p = ''Boolean''"
  shows "list_all (\<lambda>v. fromColumnValue h (Some p) (toColumnValue h (Some p) v) = Inr (Bool True))
           [Num (Fin 1), Bool True, Str ''T'', Str ''y''] \<and>
         list_all (\<lambda>v. fromColumnValue h (Some p) (toColumnValue h (Some p) v) = Inr (Bool False))
           [Num (Fin 0), Bool False, Str ''F'', Str ''n'']"
  using assms
  by (simp add: toColumnValue_def fromColumnValue_def convertBoolean_def includesStrict_def
      booleanTrue_def booleanFalse_def)

theorem boolean_round_trip_witness:
  "type_name (exampleProperty ''Boolean'') = ''Boolean'' \<and>
   fromColumnValue exampleHost (Some (exampleProperty ''Boolean''))
     (toColumnValue exampleHost (Some (exampleProperty ''Boolean'')) (Str ''y'')) = Inr (Bool True) \<and>
   fromColumnValue exampleHost (Some (exampleProperty ''Boolean''))
     (toColumnValue exampleHost (Some (exampleProperty ''Boolean'')) (Num (Fin 0))) = Inr (Bool False)"
proof -
  have t: "type_name (exampleProperty ''Boolean'') = ''Boolean''"
    by (simp add: exampleProperty_def)
  show ?thesis
    using boolean_round_trip [OF t, of exampleHost] t by simp
qed

section \<open>Reading a stored NULL\<close>

text \<open>
  Claim C10. For every property descriptor, and when there is no descriptor,
  \<open>fromColumnValue\<close> gives a stored NULL back as \<open>null\<close>: the test
  \<open>value === null || !property\<close> returns before the switch on the type, so no
  conversion (to a number, a boolean, a string, a Date, or through \<open>JSON.parse\<close>) is
  applied and nothing is thrown.
\<close>

theorem fromColumnValue_null:
  "fromColumnValue h property Null = Inr Null"
  by (simp add: fromColumnValue_def)

section \<open>Inferred column types\<close>

text \<open>
  Claim C7. For a property of the model whose column metadata names no column type,
  \<open>_columnDataType\<close> is \<open>_buildColumnType\<close> of the property, and that is
  \<open>INTEGER\<close> for a Number that is an identifier, \<open>REAL\<close> for any other Number,
  \<open>INTEGER\<close> for a Boolean and for a Date, and \<open>TEXT\<close> for every other type name
  (String, JSON, Object, Array, GeoPoint, List, or a name the switch does not list).
\<close>

theorem columnDataType_inferred:
  assumes "map_of (properties (getModelDefinition b model)) propertyName = Some p"
    and "case columnMetadata b model propertyName of None \<Rightarrow> True | Some m \<Rightarrow> dataType m = None"
  shows "columnDataType h b model propertyName = Some (buildColumnType p) \<and>
         buildColumnType p =
           (if type_name p = ''Number'' then (if is_id p then ''INTEGER'' else ''REAL'')
            else if type_name p = ''Boolean'' \<or> type_name p = ''Date'' then ''INTEGER''
            else ''TEXT'')"
  using assms
  by (auto simp: columnDataType_def buildColumnType_def Let_def split: option.splits)

text \<open>
  The three properties of the example model: an identifier Number, a Boolean and a String.
\<close>

theorem columnDataType_inferred_witness:
  "map_of (properties (getModelDefinition exampleBase ''UserData'')) ''id''
     = Some ((exampleProperty ''Number'')\<lparr>is_id := True\<rparr>) \<and>
   columnMetadata exampleBase ''UserData'' ''id'' = None \<and>
   columnDataType exampleHost exampleBase ''UserData'' ''id'' = Some ''INTEGER'' \<and>
   columnDataType exampleHost exampleBase ''UserData'' ''createdByAdmin'' = Some ''INTEGER'' \<and>
   columnDataType exampleHost exampleBase ''UserData'' ''email'' = Some ''TEXT''"
proof -
  have m1: "map_of (properties (getModelDefinition exampleBase ''UserData'')) ''id''
            = Some ((exampleProperty ''Number'')\<lparr>is_id := True\<rparr>)"
    by (simp add: exampleBase_def exampleModel_def)
  have m2: "map_of (properties (getModelDefinition exampleBase ''UserData'')) ''createdByAdmin''
            = Some (exampleProperty ''Boolean'')"
    by (simp add: exampleBase_def exampleModel_def)
  have m3: "map_of (properties (getModelDefinition exampleBase ''UserData'')) ''email''
            = Some ((exampleProperty ''String'')\<lparr>has_index := True\<rparr>)"
    by (simp add: exampleBase_def exampleModel_def)
  have none: "columnMetadata exampleBase ''UserData'' n = None" for n
    by (simp add: exampleBase_def)
  have c: "case columnMetadata exampleBase ''UserData'' n of
             None \<Rightarrow> True | Some m \<Rightarrow> dataType m = None" for n
    by (simp add: none)
  show ?thesis
    using columnDataType_inferred [OF m1 c, of exampleHost]
          columnDataType_inferred [OF m2 c, of exampleHost]
          columnDataType_inferred [OF m3 c, of exampleHost]
    by (simp add: exampleProperty_def m1 none)
qed

section \<open>Default clauses\<close>

text \<open>The default \<open>"now"\<close> of a Date property is the expression for the current time.\<close>

lemma getDefaultClause_Date_now:
  assumes "type_name p = ''Date''" and "sqlite3 p = Some d" and "dbDefault d = Str ''now''"
  shows "getDefaultClause h (Some p)
           = Inr '' DEFAULT (CAST(STRFTIME('%s', 'now') AS INTEGER)*1000)''"
  using assms by (simp add: getDefaultClause_def)

text \<open>A numeric default of a Date property, other than zero, is used as it is written.\<close>

lemma getDefaultClause_Date_numeric:
  assumes "type_name p = ''Date''" and "sqlite3 p = Some d"
    and "truthy (dbDefault d)" and "\<not> isNaN h (dbDefault d)"
  shows "getDefaultClause h (Some p) = Inr ('' DEFAULT '' @ toString h (dbDefault d))"
proof -
  have "dbDefault d \<noteq> Str ''now''"
    using assms(4)
    by (auto simp: isNaN_Str stringToNumber_def trim_def isWhiteSpace_def parseDecimal_def
        parseUnsignedDecimal_def isDigit_def parseExponent_def)
  then have "\<not> strictEquals (dbDefault d) (Str ''now'')"
    by (cases "dbDefault d") simp_all
  then show ?thesis
    using assms by (simp add: getDefaultClause_def Let_def)
qed

text \<open>
  Claim C5. The claim has a default string that does not parse as a calendar date answered
  with the error "Invalid date default". The test in \<open>_getDefaultClause\<close> is
  \<open>if (!parsedValue.isValid()) return ' DEFAULT ' + (parsedValue.unix() * 1000)\<close>, the
  other way round: for a Date property whose default is a string other than \<open>"now"\<close>
  that is not numeric, a string that \<open>moment\<close> does not understand gives a
  \<open>DEFAULT\<close> clause (built from the \<open>unix()\<close> of the invalid moment) and no error,
  and a string that it understands gives the error "Invalid date default" and no clause.
\<close>

theorem getDefaultClause_Date_string:
  assumes "type_name p = ''Date''" and "sqlite3 p = Some d" and "dbDefault d = Str s"
    and "s \<noteq> ''now''" and "stringToNumber s = NaN"
  shows "getDefaultClause h (Some p) =
           (if isValid (moment h s) then Inl (Error (''Invalid date default: '' @ s))
            else Inr ('' DEFAULT '' @ toString h (Num (times (unix (moment h s)) (Fin 1000)))))"
proof -
  have "s \<noteq> []" using assms(5) by (auto simp: stringToNumber_empty)
  then show ?thesis
    using assms by (simp add: getDefaultClause_def isNaN_Str Let_def)
qed

theorem getDefaultClause_Date_string_witness:
  "type_name (exampleDefault ''Date'' (Str ''not a date'')) = ''Date'' \<and>
   sqlite3 (exampleDefault ''Date'' (Str ''not a date'')) = Some \<lparr>dbDefault = Str ''not a date''\<rparr> \<and>
   ''not a date'' \<noteq> ''now'' \<and> stringToNumber ''not a date'' = NaN \<and>
   \<not> isValid (moment exampleHost ''not a date'') \<and>
   getDefaultClause exampleHost (Some (exampleDefault ''Date'' (Str ''not a date'')))
     = Inr '' DEFAULT NaN'' \<and>
   isValid (moment exampleHost ''2015-01-01'') \<and>
   getDefaultClause exampleHost (Some (exampleDefault ''Date'' (Str ''2015-01-01'')))
     = Inl (Error ''Invalid date default: 2015-01-01'')"
proof -
  have t: "type_name (exampleDefault ''Date'' v) = ''Date''" for v
    by (simp add: exampleDefault_def exampleProperty_def)
  have s: "sqlite3 (exampleDefault ''Date'' v) = Some \<lparr>dbDefault = v\<rparr>" for v
    by (simp add: exampleDefault_def exampleProperty_def)
  have d: "dbDefault \<lparr>dbDefault = v\<rparr> = v" for v :: jsval
    by simp
  have n1: "''not a date'' \<noteq> ''now''" and n2: "''2015-01-01'' \<noteq> ''now''"
    by simp_all
  show ?thesis
    using getDefaultClause_Date_string [OF t s d n1 not_numeric_examples(2), of exampleHost]
          getDefaultClause_Date_string [OF t s d n2 not_numeric_examples(1), of exampleHost]
    by (simp add: t s exampleHost_moment not_numeric_examples times_def signOf_def)
qed

text \<open>
  Claim C6. The claim has a Boolean default outside the canonical forms answered with an
  error and no clause. \<open>_getDefaultClause\<close> returns \<open>'DEFAULT ' + _convertBoolean(value)\<close>:
  the \<open>Error\<close> object that \<open>_convertBoolean\<close> returns is appended to the text, and the
  result is a clause, not an error.
\<close>

theorem getDefaultClause_Boolean_invalid:
  assumes "type_name p = ''Boolean''" and "sqlite3 p = Some d" and "truthy (dbDefault d)"
    and "\<not> includesStrict booleanTrue (dbDefault d)"
    and "\<not> includesStrict booleanFalse (dbDefault d)"
  shows "getDefaultClause h (Some p)
           = Inr (''DEFAULT Error: SQLITE3: Invalid boolean default: '' @ toString h (dbDefault d))"
  using assms by (simp add: getDefaultClause_def convertBoolean_def Let_def)

theorem getDefaultClause_Boolean_invalid_witness:
  "type_name (exampleDefault ''Boolean'' (Str ''maybe'')) = ''Boolean'' \<and>
   sqlite3 (exampleDefault ''Boolean'' (Str ''maybe'')) = Some \<lparr>dbDefault = Str ''maybe''\<rparr> \<and>
   truthy (Str ''maybe'') \<and>
   \<not> includesStrict booleanTrue (Str ''maybe'') \<and> \<not> includesStrict booleanFalse (Str ''maybe'') \<and>
   getDefaultClause exampleHost (Some (exampleDefault ''Boolean'' (Str ''maybe'')))
     = Inr ''DEFAULT Error: SQLITE3: Invalid boolean default: maybe''"
proof -
  have t: "type_name (exampleDefault ''Boolean'' (Str ''maybe'')) = ''Boolean''"
    by (simp add: exampleDefault_def exampleProperty_def)
  have s: "sqlite3 (exampleDefault ''Boolean'' (Str ''maybe'')) = Some \<lparr>dbDefault = Str ''maybe''\<rparr>"
    by (simp add: exampleDefault_def exampleProperty_def)
  have tr: "truthy (dbDefault \<lparr>dbDefault = Str ''maybe''\<rparr>)" by simp
  have nt: "\<not> includesStrict booleanTrue (dbDefault \<lparr>dbDefault = Str ''maybe''\<rparr>)"
    by (simp add: includesStrict_def booleanTrue_def)
  have nf: "\<not> includesStrict booleanFalse (dbDefault \<lparr>dbDefault = Str ''maybe''\<rparr>)"
    by (simp add: includesStrict_def booleanFalse_def)
  show ?thesis
    using getDefaultClause_Boolean_invalid [OF t s tr nt nf, of exampleHost] t s tr nt nf
    by simp
qed

text \<open>The Number branch beside it does return the error.\<close>

lemma getDefaultClause_Number_invalid:
  assumes "type_name p = ''Number''" and "sqlite3 p = Some d" and "truthy (dbDefault d)"
    and "isNaN h (dbDefault d)"
  shows "getDefaultClause h (Some p)
           = Inl (Error (''Invalid numeric default: '' @ toString h (dbDefault d)))"
  using assms by (simp add: getDefaultClause_def Let_def)

section \<open>Parameters bound to a statement\<close>

lemma sanitize_step:
  "(case ps ! p of InvalidParam msg \<Rightarrow> ps[p := Null] | _ \<Rightarrow> ps)
   = ps[p := (if isInvalidParam (ps ! p) then Null else ps ! p)]"
proof (cases "isInvalidParam (ps ! p)")
  case True
  then show ?thesis
    by (cases "ps ! p") (simp_all add: isInvalidParam_def)
next
  case False
  then have "(case ps ! p of InvalidParam msg \<Rightarrow> ps[p := Null] | _ \<Rightarrow> ps) = ps"
    by (cases "ps ! p") (simp_all add: isInvalidParam_def)
  with False show ?thesis by simp
qed

text \<open>After the first \<open>n\<close> rounds of the loop the first \<open>n\<close> parameters are clean.\<close>

lemma sanitize_prefix:
  "n \<le> length ps \<Longrightarrow>
   fold (\<lambda>p ps. case ps ! p of InvalidParam msg \<Rightarrow> ps[p := Null] | _ \<Rightarrow> ps) [0 ..< n] ps
   = map (\<lambda>v. if isInvalidParam v then Null else v) (take n ps) @ drop n ps"
proof (induction n)
  case 0
  then show ?case by simp
next
  case (Suc n)
  let ?g = "\<lambda>v. if isInvalidParam v then Null else v"
  let ?qs = "map ?g (take n ps) @ drop n ps"
  from Suc.prems have n: "n < length ps" by simp
  have dr: "drop n ps = ps ! n # drop (Suc n) ps"
    using n by (simp add: Cons_nth_drop_Suc)
  have nth: "?qs ! n = ps ! n"
    using n by (simp add: nth_append)
  have upd: "?qs[n := x] = map ?g (take n ps) @ x # drop (Suc n) ps" for x
  proof -
    have "?qs[n := x] = map ?g (take n ps) @ (drop n ps)[0 := x]"
      using n by (simp add: list_update_append)
    also have "(drop n ps)[0 := x] = x # drop (Suc n) ps"
      by (subst dr) simp
    finally show ?thesis .
  qed
  have tk: "take (Suc n) ps = take n ps @ [ps ! n]"
    using n by (simp add: take_Suc_conv_app_nth)
  have "fold (\<lambda>p ps. case ps ! p of InvalidParam msg \<Rightarrow> ps[p := Null] | _ \<Rightarrow> ps) [0 ..< Suc n] ps
        = ?qs[n := ?g (?qs ! n)]"
    using Suc.IH n by (simp add: sanitize_step)
  also have "\<dots> = map ?g (take n ps) @ ?g (ps ! n) # drop (Suc n) ps"
    by (simp only: nth upd)
  also have "\<dots> = map ?g (take (Suc n) ps) @ drop (Suc n) ps"
    by (simp add: tk)
  finally show ?case .
qed

lemma sanitizeParams_map:
  "sanitizeParams params = map (\<lambda>v. if isInvalidParam v then Null else v) params"
  using sanitize_prefix [of "length params" params] by (simp add: sanitizeParams_def)

lemma sanitizeParams_clean:
  "list_all (\<lambda>v. \<not> isInvalidParam v) (sanitizeParams params)"
  by (auto simp: sanitizeParams_map list_all_iff isInvalidParam_def)

lemma queries_append: "queries (xs @ ys) = queries xs @ queries ys"
  by (induction xs rule: queries.induct) simp_all

lemma executeWithConnection_trace:
  "\<exists>c. trace (snd (executeWithConnection be sql params client st)) = trace st @ [c]
       \<and> queries [c] = [(sql, params)]"
  by (auto simp: executeWithConnection_def perform_def Let_def split: option.splits)

lemma connect_trace:
  "trace (snd (connect be st)) = trace st @ (if defaultConnection st then [] else [GetConnection])"
  by (auto simp: connect_def perform_def split: option.splits)

text \<open>
  \<open>executeSQL\<close> hands the statement to the database once, with the cleaned
  parameters, unless the default connection cannot be opened.
\<close>

lemma executeSQL_queries:
  "queries (callsSince st (snd (executeSQL be sql params options st)))
     = [(sql, sanitizeParams params)]
   \<or> (queries (callsSince st (snd (executeSQL be sql params options st))) = []
      \<and> fst (executeSQL be sql params options st) = Some TypeError)"
proof -
  let ?ps = "sanitizeParams params"
  have ewc: "queries (callsSince s0 (snd (executeWithConnection be sql ?ps client s1)))
             = queries (callsSince s0 s1) @ [(sql, ?ps)]"
    if "\<exists>cs. trace s1 = trace s0 @ cs" for s0 s1 client
  proof -
    from that obtain cs where cs: "trace s1 = trace s0 @ cs" by blast
    obtain c where c: "trace (snd (executeWithConnection be sql ?ps client s1)) = trace s1 @ [c]"
         "queries [c] = [(sql, ?ps)]"
      using executeWithConnection_trace [of be sql ?ps client s1] by blast
    have "callsSince s0 (snd (executeWithConnection be sql ?ps client s1)) = cs @ [c]"
      using c(1) cs by (simp add: callsSince_def)
    moreover have "callsSince s0 s1 = cs" using cs by (simp add: callsSince_def)
    ultimately show ?thesis using c(2) by (simp add: queries_append)
  qed
  have direct: "queries (callsSince st (snd (executeWithConnection be sql ?ps client st)))
                = [(sql, ?ps)]" for client
  proof -
    have "queries (callsSince st (snd (executeWithConnection be sql ?ps client st)))
          = queries (callsSince st st) @ [(sql, ?ps)]"
      by (rule ewc) simp
    then show ?thesis by (simp add: callsSince_def)
  qed
  have viaConnect:
    "(case connect be st of
        (Some err, st') \<Rightarrow> (Some TypeError, st')
      | (None, st') \<Rightarrow> executeWithConnection be sql ?ps DefaultConnection st') = r \<Longrightarrow>
     queries (callsSince st (snd r)) = [(sql, ?ps)]
     \<or> (queries (callsSince st (snd r)) = [] \<and> fst r = Some TypeError)" for r
  proof (cases "connect be st")
    case (Pair e st')
    assume r: "(case connect be st of
        (Some err, st') \<Rightarrow> (Some TypeError, st')
      | (None, st') \<Rightarrow> executeWithConnection be sql ?ps DefaultConnection st') = r"
    have tr: "trace st' = trace st @ (if defaultConnection st then [] else [GetConnection])"
      using connect_trace [of be st] Pair by simp
    then have q: "queries (callsSince st st') = []"
      by (simp add: callsSince_def)
    show ?thesis
    proof (cases e)
      case None
      then have "r = executeWithConnection be sql ?ps DefaultConnection st'"
        using r Pair by simp
      moreover have "queries (callsSince st (snd (executeWithConnection be sql ?ps DefaultConnection st')))
                     = queries (callsSince st st') @ [(sql, ?ps)]"
        by (rule ewc) (simp add: tr)
      ultimately show ?thesis using q by simp
    next
      case (Some err)
      then have "r = (Some TypeError, st')" using r Pair by simp
      then show ?thesis using q by simp
    qed
  qed
  show ?thesis
    unfolding executeSQL_def Let_def
    by (cases "transaction options"; cases "connector_is_this (the (transaction options))")
       (simp_all add: direct viaConnect)
qed

text \<open>
  Claim C9. Whatever parameter list \<open>executeSQL\<close> is given, no list it binds to a
  statement holds an \<open>InvalidParam\<close>: the statement is bound once, to the list in which
  every \<open>InvalidParam\<close> is replaced by \<open>null\<close> and every other element is kept (or it
  is not bound at all, when the default connection cannot be opened).
\<close>

theorem executeSQL_binds_no_InvalidParam:
  "list_all (\<lambda>q. list_all (\<lambda>v. \<not> isInvalidParam v) (snd q))
     (queries (callsSince st (snd (executeSQL be sql params options st)))) \<and>
   (queries (callsSince st (snd (executeSQL be sql params options st)))
      = [(sql, map (\<lambda>v. if isInvalidParam v then Null else v) params)]
    \<or> (queries (callsSince st (snd (executeSQL be sql params options st))) = []
       \<and> fst (executeSQL be sql params options st) = Some TypeError))"
  using executeSQL_queries [of st be sql params options] sanitizeParams_clean [of params]
  by (auto simp: sanitizeParams_map)

theorem executeSQL_binds_no_InvalidParam_witness:
  "queries (callsSince freshState
     (snd (executeSQL accepting ''INSERT INTO t VALUES (?, ?)''
             [Num (Fin 1), InvalidParam ''SQLITE3: Invalid number: x'']
             \<lparr>transaction = None, transation = None\<rparr> freshState)))
   = [(''INSERT INTO t VALUES (?, ?)'', [Num (Fin 1), Null])]"
proof -
  have "fst (executeSQL accepting ''INSERT INTO t VALUES (?, ?)''
             [Num (Fin 1), InvalidParam ''SQLITE3: Invalid number: x'']
             \<lparr>transaction = None, transation = None\<rparr> freshState) = None"
    by (simp add: executeSQL_def connect_def perform_def accepting_def freshState_def
        executeWithConnection_def Let_def)
  then show ?thesis
    using executeSQL_binds_no_InvalidParam [of freshState accepting "''INSERT INTO t VALUES (?, ?)''"
            "[Num (Fin 1), InvalidParam ''SQLITE3: Invalid number: x'']"
            "\<lparr>transaction = None, transation = None\<rparr>"]
    by (simp add: isInvalidParam_def)
qed

section \<open>Altering a table\<close>

lemma fmt_rename:
  "fmt ''ALTER TABLE %s RENAME TO %s'' [a, b] = ''ALTER TABLE '' @ a @ '' RENAME TO '' @ b"
  by (simp add: fmt_def)

lemma fmt_create:
  "fmt ''CREATE TABLE %s (%s)'' [a, b] = ''CREATE TABLE '' @ a @ '' ('' @ b @ '')''"
  by (simp add: fmt_def)

lemma fmt_insert:
  "fmt ''INSERT INTO %s SELECT %s FROM %s'' [a, b, c]
   = ''INSERT INTO '' @ a @ '' SELECT '' @ b @ '' FROM '' @ c"
  by (simp add: fmt_def)

lemma fmt_drop:
  "fmt ''DROP TABLE %s'' [a] = ''DROP TABLE '' @ a"
  by (simp add: fmt_def)

text \<open>Tasks that run their statements, run one after the other, run all of them.\<close>

lemma runs_series:
  "list_all2 runs ts qss \<Longrightarrow> runs (series ts) (concat qss)"
proof (induction ts qss rule: list_all2_induct)
  case Nil
  show ?case by (simp add: runs_def)
next
  case (Cons t ts stmts qss)
  show ?case
    unfolding runs_def
  proof
    fix st
    from Cons.hyps(1) obtain cs where t:
      "fst (t st) = None" "trace (snd (t st)) = trace st @ cs" "map fst (queries cs) = stmts"
      unfolding runs_def by blast
    from Cons.IH obtain ds where r:
      "fst (series ts (snd (t st))) = None"
      "trace (snd (series ts (snd (t st)))) = trace (snd (t st)) @ ds"
      "map fst (queries ds) = concat qss"
      unfolding runs_def by blast
    have s: "series (t # ts) st = series ts (snd (t st))"
      using t(1) by (cases "t st") simp
    show "\<exists>cs. fst (series (t # ts) st) = None
               \<and> trace (snd (series (t # ts) st)) = trace st @ cs
               \<and> map fst (queries cs) = concat (stmts # qss)"
      unfolding s using t r by (intro exI [of _ "cs @ ds"]) (simp add: queries_append)
  qed
qed

text \<open>With a database that accepts every call, \<open>executeSQL\<close> runs its statement.\<close>

lemma runs_executeSQL:
  assumes "\<forall>tr c. be tr c = None"
  shows "runs (executeSQL be sql params options) [sql]"
  unfolding runs_def
proof
  fix st
  have ewc: "\<exists>c. executeWithConnection be sql ps client s
                 = (None, s\<lparr>trace := trace s @ [c]\<rparr>) \<and> map fst (queries [c]) = [sql]"
    for ps client s
  proof -
    let ?c = "if startsWith (toLowerCase (trim sql)) ''select''
                 \<or> startsWith (toLowerCase (trim sql)) ''pragma''
              then All client sql ps else Run client sql ps"
    have e: "executeWithConnection be sql ps client s = (None, s\<lparr>trace := trace s @ [?c]\<rparr>)"
      using assms by (simp add: executeWithConnection_def perform_def Let_def)
    have q: "map fst (queries [?c]) = [sql]" by simp
    show ?thesis by (rule exI [of _ ?c]) (simp only: e q simp_thms)
  qed
  have con: "\<exists>cs. connect be st = (None, st\<lparr>trace := trace st @ cs, defaultConnection := True\<rparr>)
                  \<and> queries cs = []"
  proof (cases "defaultConnection st")
    case True
    then have "connect be st = (None, st\<lparr>trace := trace st @ [], defaultConnection := True\<rparr>)"
      by (simp add: connect_def)
    then show ?thesis by (intro exI [of _ "[]"]) simp
  next
    case False
    then have "connect be st
               = (None, st\<lparr>trace := trace st @ [GetConnection], defaultConnection := True\<rparr>)"
      using assms by (simp add: connect_def perform_def)
    then show ?thesis by (intro exI [of _ "[GetConnection]"]) simp
  qed
  let ?ps = "sanitizeParams params"
  define P where "P = (\<lambda>r :: error option \<times> connector_state.
     \<exists>cs. fst r = None \<and> trace (snd r) = trace st @ cs \<and> map fst (queries cs) = [sql])"
  have direct: "P (executeWithConnection be sql ?ps client st)" for client
  proof -
    obtain c where "executeWithConnection be sql ?ps client st
                    = (None, st\<lparr>trace := trace st @ [c]\<rparr>)" "map fst (queries [c]) = [sql]"
      using ewc [where ps = "?ps" and client = client and s = st] by auto
    then show ?thesis unfolding P_def by (intro exI [of _ "[c]"]) simp
  qed
  have via: "P (case connect be st of
                   (Some err, st') \<Rightarrow> (Some TypeError, st')
                 | (None, st') \<Rightarrow> executeWithConnection be sql ?ps DefaultConnection st')"
  proof -
    obtain cs where cs:
      "connect be st = (None, st\<lparr>trace := trace st @ cs, defaultConnection := True\<rparr>)"
      "queries cs = []"
      using con by blast
    let ?s = "st\<lparr>trace := trace st @ cs, defaultConnection := True\<rparr>"
    obtain c where c: "executeWithConnection be sql ?ps DefaultConnection ?s
                    = (None, ?s\<lparr>trace := trace ?s @ [c]\<rparr>)" "map fst (queries [c]) = [sql]"
      using ewc [where ps = "?ps" and client = DefaultConnection and s = "?s"] by auto
    show ?thesis
      unfolding P_def using cs c by (intro exI [of _ "cs @ [c]"]) (simp add: queries_append)
  qed
  have "P (executeSQL be sql params options st)"
    unfolding executeSQL_def Let_def
    by (cases "transaction options"; cases "connector_is_this (the (transaction options))")
       (simp_all add: direct via)
  then show "\<exists>cs. fst (executeSQL be sql params options st) = None
               \<and> trace (snd (executeSQL be sql params options st)) = trace st @ cs
               \<and> map fst (queries cs) = [sql]"
    unfolding P_def .
qed

lemma runs_createTable:
  assumes "\<forall>tr c. be tr c = None" and "createTableStatements h b model = Inr stmts"
  shows "runs (createTable be h b model options) stmts"
proof -
  have "list_all2 runs (map (\<lambda>stmt. executeSQL be stmt [] options) stmts)
          (map (\<lambda>stmt. [stmt]) stmts)"
    using runs_executeSQL [OF assms(1)] by (simp add: list_all2_conv_all_nth)
  then have "runs (series (map (\<lambda>stmt. executeSQL be stmt [] options) stmts))
               (concat (map (\<lambda>stmt. [stmt]) stmts))"
    by (rule runs_series)
  moreover have "concat (map (\<lambda>stmt. [stmt]) stmts) = stmts"
    by (induction stmts) simp_all
  moreover have "createTable be h b model options
                 = series (map (\<lambda>stmt. executeSQL be stmt [] options) stmts)"
    using assms(2) by (auto simp: createTable_def)
  ultimately show ?thesis by simp
qed

text \<open>
  The four steps of the alteration, for any options: rename, create (the table, then its
  indexes), copy, drop.
\<close>

lemma runs_alteration_steps:
  assumes "\<forall>tr c. be tr c = None"
    and "buildColumnDefinitions h b model = Inr colDefs"
  shows "runs (series
                [renameOldTable be tx (escapeLower model) (escapeLower (model @ ''_old'')),
                 createTable be h b model tx,
                 copyRecords be b model tx (escapeLower model) (escapeLower (model @ ''_old'')),
                 dropOldTable be tx (escapeLower (model @ ''_old''))])
           ([''ALTER TABLE '' @ escapeLower model @ '' RENAME TO '' @ escapeLower (model @ ''_old''),
             ''CREATE TABLE '' @ tableEscaped b model @ '' ('' @ colDefs @ '')'']
            @ buildColumnIndexes b model
            @ [''INSERT INTO '' @ escapeLower model @ '' SELECT ''
                 @ join '','' (map (\<lambda>name. escapeLower name)
                                  (map fst (properties (getModelDefinition b model))))
                 @ '' FROM '' @ escapeLower (model @ ''_old''),
               ''DROP TABLE '' @ escapeLower (model @ ''_old'')])"
proof -
  let ?old = "escapeLower model" and ?new = "escapeLower (model @ ''_old'')"
  let ?create = "''CREATE TABLE '' @ tableEscaped b model @ '' ('' @ colDefs @ '')''"
  let ?copy = "''INSERT INTO '' @ ?old @ '' SELECT ''
                  @ join '','' (map (\<lambda>name. escapeLower name)
                                   (map fst (properties (getModelDefinition b model))))
                  @ '' FROM '' @ ?new"
  have cts: "createTableStatements h b model = Inr (?create # buildColumnIndexes b model)"
    using assms(2) by (simp add: createTableStatements_def fmt_create)
  have r1: "runs (renameOldTable be tx ?old ?new) [''ALTER TABLE '' @ ?old @ '' RENAME TO '' @ ?new]"
    unfolding renameOldTable_def fmt_rename by (rule runs_executeSQL [OF assms(1)])
  have r2: "runs (createTable be h b model tx) (?create # buildColumnIndexes b model)"
    by (rule runs_createTable [OF assms(1) cts])
  have r3: "runs (copyRecords be b model tx ?old ?new) [?copy]"
    unfolding copyRecords_def Let_def fmt_insert by (rule runs_executeSQL [OF assms(1)])
  have r4: "runs (dropOldTable be tx ?new) [''DROP TABLE '' @ ?new]"
    unfolding dropOldTable_def fmt_drop by (rule runs_executeSQL [OF assms(1)])
  define tasks where "tasks = [renameOldTable be tx ?old ?new, createTable be h b model tx,
                 copyRecords be b model tx ?old ?new, dropOldTable be tx ?new]"
  have "list_all2 runs tasks
          [[''ALTER TABLE '' @ ?old @ '' RENAME TO '' @ ?new],
           ?create # buildColumnIndexes b model, [?copy], [''DROP TABLE '' @ ?new]]"
    unfolding tasks_def using r1 r2 r3 r4 by simp
  then have "runs (series tasks)
               (concat [[''ALTER TABLE '' @ ?old @ '' RENAME TO '' @ ?new],
                  ?create # buildColumnIndexes b model, [?copy], [''DROP TABLE '' @ ?new]])"
    by (rule runs_series)
  then show ?thesis
    unfolding tasks_def by simp
qed

lemma series_snoc:
  "series (ts @ [t]) s =
     (case series ts s of (Some err, s') \<Rightarrow> (Some err, s') | (None, s') \<Rightarrow> t s')"
  by (induction ts arbitrary: s) (auto split: prod.splits option.splits)

text \<open>With a database that accepts every call, a transaction begins and commits.\<close>

lemma beginTransaction_accepted:
  assumes "\<forall>tr c. be tr c = None"
  shows "beginTransaction be (Some level) st =
           (Inr TransactionConnection,
            st\<lparr>trace := trace st @ [GetConnection,
                 Run TransactionConnection (''BEGIN '' @ level @ '' TRANSACTION'') []]\<rparr>)"
  using assms by (simp add: beginTransaction_def perform_def)

lemma commit_accepted:
  assumes "\<forall>tr c. be tr c = None"
  shows "commit be TransactionConnection st =
           (None, st\<lparr>trace := trace st @ [Run TransactionConnection ''COMMIT'' [],
                                             Close TransactionConnection]\<rparr>)"
  using assms by (simp add: commit_def releaseConnection_def perform_def)

lemma runs_commit:
  assumes "\<forall>tr c. be tr c = None"
  shows "runs (commit be TransactionConnection) [''COMMIT'']"
  unfolding runs_def
proof
  fix st
  show "\<exists>cs. fst (commit be TransactionConnection st) = None
              \<and> trace (snd (commit be TransactionConnection st)) = trace st @ cs
              \<and> map fst (queries cs) = [''COMMIT'']"
    unfolding commit_accepted [OF assms]
    by (intro exI [of _ "[Run TransactionConnection ''COMMIT'' [], Close TransactionConnection]"])
       simp
qed

text \<open>
  When the column definitions cannot be built (a default that \<open>_getDefaultClause\<close>
  refuses), \<open>createTable\<close> hands the error to its callback before it executes anything:
  the alteration ends with that error after the rename.
\<close>

lemma alterTable_stops_without_columns:
  assumes "\<forall>tr c. be tr c = None"
    and "buildColumnDefinitions h b model = Inl e"
  shows "fst (alterTable be h b model st) = Some e \<and>
         map fst (queries (callsSince st (snd (alterTable be h b model st)))) =
           [''BEGIN EXCLUSIVE TRANSACTION'',
            ''ALTER TABLE '' @ escapeLower model @ '' RENAME TO '' @ escapeLower (model @ ''_old'')]"
proof -
  let ?old = "escapeLower model" and ?new = "escapeLower (model @ ''_old'')"
  let ?tx = "\<lparr>transaction = None,
              transation = Some \<lparr>connection = TransactionConnection, connector_is_this = True\<rparr>\<rparr>"
  define opened where "opened = [GetConnection,
     Run TransactionConnection (''BEGIN '' @ ''EXCLUSIVE'' @ '' TRANSACTION'') []]"
  define s1 where "s1 = st\<lparr>trace := trace st @ opened\<rparr>"
  define rename where "rename = renameOldTable be ?tx ?old ?new"
  define stmts where "stmts = [''ALTER TABLE '' @ ?old @ '' RENAME TO '' @ ?new]"
  define rest where "rest = [copyRecords be b model ?tx ?old ?new, dropOldTable be ?tx ?new,
                             commit be TransactionConnection]"
  have bt: "beginTransaction be (Some ''EXCLUSIVE'') st = (Inr TransactionConnection, s1)"
    unfolding s1_def opened_def by (rule beginTransaction_accepted [OF assms(1)])
  have "runs rename stmts"
    unfolding rename_def stmts_def renameOldTable_def fmt_rename
    by (rule runs_executeSQL [OF assms(1)])
  then obtain cs where cs: "fst (rename s1) = None" "trace (snd (rename s1)) = trace s1 @ cs"
      "map fst (queries cs) = stmts"
    unfolding runs_def by blast
  define s2 where "s2 = snd (rename s1)"
  have one: "rename s1 = (None, s2)"
    unfolding s2_def using cs(1) by (cases "rename s1") simp
  have ct: "createTable be h b model ?tx s2 = (Some e, s2)"
    using assms(2) by (simp add: createTable_def createTableStatements_def)
  have "alterTable be h b model st = series (rename # createTable be h b model ?tx # rest) s1"
    by (simp add: alterTable_def bt Let_def rest_def rename_def del: series.simps)
  also have "\<dots> = series (createTable be h b model ?tx # rest) s2"
    by (simp only: series.simps one prod.case option.case)
  also have "\<dots> = (Some e, s2)"
    by (simp only: series.simps ct prod.case option.case)
  finally have res: "alterTable be h b model st = (Some e, s2)" .
  have tr: "trace s2 = trace st @ opened @ cs"
    using cs(2) by (simp add: s2_def s1_def)
  have calls: "callsSince st (snd (alterTable be h b model st)) = opened @ cs"
    by (simp add: res callsSince_def tr)
  have o: "map fst (queries opened) = [''BEGIN EXCLUSIVE TRANSACTION'']"
    by (simp add: opened_def)
  have f: "fst (alterTable be h b model st) = Some e"
    by (simp add: res)
  have q: "map fst (queries (callsSince st (snd (alterTable be h b model st))))
           = ''BEGIN EXCLUSIVE TRANSACTION'' # stmts"
    unfolding calls using cs(3) o by (simp add: queries_append)
  from f q show ?thesis
    unfolding stmts_def by (intro conjI)
qed

lemma exampleInvalidModel_columns:
  "buildColumnDefinitions exampleHost exampleInvalidBase ''Post''
     = Inl (Error ''Invalid numeric default: not-a-number'')"
  by (simp add: buildColumnDefinitions_def buildColumnDefinition_def exampleInvalidBase_def
      exampleBase_def exampleInvalidModel_def exampleDefault_def exampleProperty_def
      getDefaultClause_def isNaN_Str stringToNumber_def trim_def isWhiteSpace_def
      parseDecimal_def parseUnsignedDecimal_def isDigit_def parseExponent_def Let_def)

text \<open>
  Claim C1, as stated, fails for a model whose column definitions cannot be built: for the
  example model with the Number default \<open>not-a-number\<close>, and a database that accepts
  every call, \<open>_alterTable\<close> ends with the error of \<open>_getDefaultClause\<close> after the
  rename; it does not create, copy or drop.
\<close>

theorem alterTable_statements_counterexample:
  "fst (alterTable accepting exampleHost exampleInvalidBase ''Post'' freshState)
     = Some (Error ''Invalid numeric default: not-a-number'') \<and>
   map fst (queries (callsSince freshState
                       (snd (alterTable accepting exampleHost exampleInvalidBase ''Post'' freshState))))
     = [''BEGIN EXCLUSIVE TRANSACTION'', ''ALTER TABLE \"post\" RENAME TO \"post_old\"'']"
proof -
  have a: "\<forall>tr c. accepting tr c = None"
    by (simp add: accepting_def)
  have n: "escapeLower ''Post'' = ''\"post\"''" "escapeLower ''Post_old'' = ''\"post_old\"''"
    by (simp_all add: escapeLower_def escapeName_def toLowerCase_def toLowerChar_def)
  show ?thesis
    using alterTable_stops_without_columns [OF a exampleInvalidModel_columns, of freshState]
    by (simp add: n)
qed

text \<open>
  With a database that accepts every call and column definitions that can be built,
  \<open>_alterTable\<close> ends without an error, and the statements it hands to the database
  are \<open>BEGIN EXCLUSIVE TRANSACTION\<close>, the rename, the statements of \<open>createTable\<close>,
  the copy, the drop and \<open>COMMIT\<close>. The rename, the copy and the drop name the table by
  the escaped, lower-cased model name; \<open>createTable\<close> names it with the inherited
  \<open>tableEscaped\<close>.
\<close>

lemma alterTable_all_statements:
  assumes "\<forall>tr c. be tr c = None"
    and "buildColumnDefinitions h b model = Inr colDefs"
  shows "fst (alterTable be h b model st) = None \<and>
         map fst (queries (callsSince st (snd (alterTable be h b model st)))) =
           [''BEGIN EXCLUSIVE TRANSACTION'',
            ''ALTER TABLE '' @ escapeLower model @ '' RENAME TO '' @ escapeLower (model @ ''_old''),
            ''CREATE TABLE '' @ tableEscaped b model @ '' ('' @ colDefs @ '')'']
           @ buildColumnIndexes b model
           @ [''INSERT INTO '' @ escapeLower model @ '' SELECT ''
                @ join '','' (map (\<lambda>name. escapeLower name)
                                 (map fst (properties (getModelDefinition b model))))
                @ '' FROM '' @ escapeLower (model @ ''_old''),
              ''DROP TABLE '' @ escapeLower (model @ ''_old''),
              ''COMMIT'']"
proof -
  let ?old = "escapeLower model" and ?new = "escapeLower (model @ ''_old'')"
  let ?tx = "\<lparr>transaction = None,
              transation = Some \<lparr>connection = TransactionConnection, connector_is_this = True\<rparr>\<rparr>"
  let ?steps = "[''ALTER TABLE '' @ ?old @ '' RENAME TO '' @ ?new,
                 ''CREATE TABLE '' @ tableEscaped b model @ '' ('' @ colDefs @ '')'']
                @ buildColumnIndexes b model
                @ [''INSERT INTO '' @ ?old @ '' SELECT ''
                     @ join '','' (map (\<lambda>name. escapeLower name)
                                      (map fst (properties (getModelDefinition b model))))
                     @ '' FROM '' @ ?new,
                   ''DROP TABLE '' @ ?new]"
  define tasks where "tasks = [renameOldTable be ?tx ?old ?new, createTable be h b model ?tx,
                 copyRecords be b model ?tx ?old ?new, dropOldTable be ?tx ?new]"
  define steps where "steps = ?steps"
  define opened where "opened = [GetConnection,
     Run TransactionConnection (''BEGIN '' @ ''EXCLUSIVE'' @ '' TRANSACTION'') []]"
  define s1 where "s1 = st\<lparr>trace := trace st @ opened\<rparr>"
  have bt: "beginTransaction be (Some ''EXCLUSIVE'') st = (Inr TransactionConnection, s1)"
    unfolding s1_def opened_def by (rule beginTransaction_accepted [OF assms(1)])
  have four: "runs (series tasks) steps"
    unfolding tasks_def steps_def by (rule runs_alteration_steps [OF assms(1,2)])
  have "list_all2 runs [series tasks, commit be TransactionConnection] [steps, [''COMMIT'']]"
    using four runs_commit [OF assms(1)] by simp
  then have "runs (series [series tasks, commit be TransactionConnection])
               (concat [steps, [''COMMIT'']])"
    by (rule runs_series)
  then obtain cs where cs:
      "fst (series [series tasks, commit be TransactionConnection] s1) = None"
      "trace (snd (series [series tasks, commit be TransactionConnection] s1)) = trace s1 @ cs"
      "map fst (queries cs) = steps @ [''COMMIT'']"
    unfolding runs_def by fastforce
  have nest: "series [series tasks, commit be TransactionConnection] s1
              = series (tasks @ [commit be TransactionConnection]) s1"
    by (simp add: series_snoc split: prod.splits option.splits del: series.simps)
       (simp split: prod.splits option.splits)
  have alt: "alterTable be h b model st = series (tasks @ [commit be TransactionConnection]) s1"
    by (simp add: alterTable_def bt Let_def tasks_def del: series.simps)
  have res: "alterTable be h b model st
             = series [series tasks, commit be TransactionConnection] s1"
    by (simp only: alt nest)
  have tr: "trace (snd (alterTable be h b model st)) = trace st @ opened @ cs"
    using cs(2) by (simp add: res s1_def)
  have calls: "callsSince st (snd (alterTable be h b model st)) = opened @ cs"
    by (simp add: callsSince_def tr)
  have o: "map fst (queries opened) = [''BEGIN EXCLUSIVE TRANSACTION'']"
    by (simp add: opened_def)
  have f: "fst (alterTable be h b model st) = None"
    using cs(1) by (simp only: res)
  have "map fst (queries (callsSince st (snd (alterTable be h b model st))))
        = ''BEGIN EXCLUSIVE TRANSACTION'' # steps @ [''COMMIT'']"
    unfolding calls using cs(3) o by (simp add: queries_append)
  then have q: "map fst (queries (callsSince st (snd (alterTable be h b model st)))) =
           [''BEGIN EXCLUSIVE TRANSACTION'',
            ''ALTER TABLE '' @ ?old @ '' RENAME TO '' @ ?new,
            ''CREATE TABLE '' @ tableEscaped b model @ '' ('' @ colDefs @ '')'']
           @ buildColumnIndexes b model
           @ [''INSERT INTO '' @ ?old @ '' SELECT ''
                @ join '','' (map (\<lambda>name. escapeLower name)
                                 (map fst (properties (getModelDefinition b model))))
                @ '' FROM '' @ ?new,
              ''DROP TABLE '' @ ?new,
              ''COMMIT'']"
    unfolding steps_def by simp
  from f q show ?thesis
    by (intro conjI)
qed

text \<open>
  Claim C1, amended. For every model whose column definitions can be built and whose
  table the inherited \<open>tableEscaped\<close> names as \<open>_alterTable\<close> does (the escaped,
  lower-cased model name), and with a database that accepts every call, \<open>_alterTable\<close>
  ends without an error and the statements it hands to the database are exactly, in this
  order: \<open>BEGIN EXCLUSIVE TRANSACTION\<close>; \<open>ALTER TABLE\<close> renaming the table of the
  lower-cased, escaped model name to that of \<open>model + '_old'\<close>; \<open>CREATE TABLE\<close> under
  the original name with the column definitions of the current model definition, followed
  by the \<open>CREATE INDEX\<close> statements of the current model; \<open>INSERT INTO\<close> the original
  name \<open>SELECT\<close> the escaped, lower-cased names of the current model's properties,
  joined by commas in the order of the model definition, \<open>FROM\<close> the \<open>_old\<close> name;
  \<open>DROP TABLE\<close> of the \<open>_old\<close> name; and \<open>COMMIT\<close>. The column list of the copy
  is computed from the current model definition alone.
\<close>

theorem alterTable_statements:
  assumes "\<forall>tr c. be tr c = None"
    and "buildColumnDefinitions h b model = Inr colDefs"
    and "tableEscaped b model = escapeLower model"
  shows "fst (alterTable be h b model st) = None \<and>
         map fst (queries (callsSince st (snd (alterTable be h b model st)))) =
           [''BEGIN EXCLUSIVE TRANSACTION'',
            ''ALTER TABLE '' @ escapeLower model @ '' RENAME TO '' @ escapeLower (model @ ''_old''),
            ''CREATE TABLE '' @ escapeLower model @ '' ('' @ colDefs @ '')'']
           @ buildColumnIndexes b model
           @ [''INSERT INTO '' @ escapeLower model @ '' SELECT ''
                @ join '','' (map (\<lambda>name. escapeLower name)
                                 (map fst (properties (getModelDefinition b model))))
                @ '' FROM '' @ escapeLower (model @ ''_old''),
              ''DROP TABLE '' @ escapeLower (model @ ''_old''),
              ''COMMIT'']"
  using alterTable_all_statements [OF assms(1,2), of st]
  unfolding assms(3) .

text \<open>The example model, whose property \<open>email\<close> has an index.\<close>

lemma exampleModel_columns:
  "buildColumnDefinitions exampleHost exampleBase ''UserData''
     = Inr ''\"id\" INTEGER NOT NULL PRIMARY KEY,\"email\" TEXT,\"createdbyadmin\" INTEGER''"
  by (simp add: buildColumnDefinitions_def buildColumnDefinition_def exampleBase_def
      exampleModel_def exampleProperty_def getDefaultClause_def columnDataType_def
      buildColumnType_def dbName_def toLowerCase_def toLowerChar_def Let_def)

lemma exampleModel_indexes:
  "buildColumnIndexes exampleBase ''UserData''
     = [''CREATE INDEX IF NOT EXISTS \"userdata_email\" ON \"userdata\" (\"email\")'']"
  by (simp add: buildColumnIndexes_def exampleBase_def exampleModel_def exampleProperty_def
      dbName_def escapeLower_def escapeName_def fmt_def toLowerCase_def toLowerChar_def Let_def)

lemma exampleModel_names:
  "escapeLower ''UserData'' = ''\"userdata\"''"
  "escapeLower ''UserData_old'' = ''\"userdata_old\"''"
  "tableEscaped exampleBase ''UserData'' = ''\"userdata\"''"
  "join '','' (map (\<lambda>name. escapeLower name)
                  (map fst (properties (getModelDefinition exampleBase ''UserData''))))
     = ''\"id\",\"email\",\"createdbyadmin\"''"
  "join '','' (map (escapeLower \<circ> fst) (properties (getModelDefinition exampleBase ''UserData'')))
     = ''\"id\",\"email\",\"createdbyadmin\"''"
  by (simp_all add: exampleBase_def exampleModel_def dbName_def escapeLower_def escapeName_def
      toLowerCase_def toLowerChar_def)

theorem alterTable_statements_witness:
  "(\<forall>tr c. accepting tr c = None) \<and>
   buildColumnDefinitions exampleHost exampleBase ''UserData''
     = Inr ''\"id\" INTEGER NOT NULL PRIMARY KEY,\"email\" TEXT,\"createdbyadmin\" INTEGER'' \<and>
   tableEscaped exampleBase ''UserData'' = escapeLower ''UserData'' \<and>
   fst (alterTable accepting exampleHost exampleBase ''UserData'' freshState) = None \<and>
   map fst (queries (callsSince freshState
                       (snd (alterTable accepting exampleHost exampleBase ''UserData'' freshState))))
     = [''BEGIN EXCLUSIVE TRANSACTION'',
        ''ALTER TABLE \"userdata\" RENAME TO \"userdata_old\"'',
        ''CREATE TABLE \"userdata\" (\"id\" INTEGER NOT NULL PRIMARY KEY,\"email\" TEXT,\"createdbyadmin\" INTEGER)'',
        ''CREATE INDEX IF NOT EXISTS \"userdata_email\" ON \"userdata\" (\"email\")'',
        ''INSERT INTO \"userdata\" SELECT \"id\",\"email\",\"createdbyadmin\" FROM \"userdata_old\"'',
        ''DROP TABLE \"userdata_old\"'',
        ''COMMIT'']"
proof -
  have a: "\<forall>tr c. accepting tr c = None"
    by (simp add: accepting_def)
  have n: "tableEscaped exampleBase ''UserData'' = escapeLower ''UserData''"
    by (simp only: exampleModel_names)
  note t = alterTable_statements [OF a exampleModel_columns n, of freshState]
  have f: "fst (alterTable accepting exampleHost exampleBase ''UserData'' freshState) = None"
    using t by (rule conjunct1)
  have q: "map fst (queries (callsSince freshState
                       (snd (alterTable accepting exampleHost exampleBase ''UserData'' freshState))))
     = [''BEGIN EXCLUSIVE TRANSACTION'',
        ''ALTER TABLE \"userdata\" RENAME TO \"userdata_old\"'',
        ''CREATE TABLE \"userdata\" (\"id\" INTEGER NOT NULL PRIMARY KEY,\"email\" TEXT,\"createdbyadmin\" INTEGER)'',
        ''CREATE INDEX IF NOT EXISTS \"userdata_email\" ON \"userdata\" (\"email\")'',
        ''INSERT INTO \"userdata\" SELECT \"id\",\"email\",\"createdbyadmin\" FROM \"userdata_old\"'',
        ''DROP TABLE \"userdata_old\"'',
        ''COMMIT'']"
    using t [THEN conjunct2]
    by (simp add: exampleModel_indexes exampleModel_names)
  from a exampleModel_columns n f q show ?thesis
    by (intro conjI)
qed

text \<open>
  The later variant of \<open>_alterTable\<close>, which runs inside the transaction of
  \<open>autoupdate\<close>, executes the same four steps.
\<close>

lemma alterTable_in_transaction_statements:
  assumes "\<forall>tr c. be tr c = None"
    and "buildColumnDefinitions h b model = Inr colDefs"
  shows "fst (alterTable_in_transaction be h b model txOptions st) = None \<and>
         map fst (queries (callsSince st (snd (alterTable_in_transaction be h b model txOptions st)))) =
           [''ALTER TABLE '' @ escapeLower model @ '' RENAME TO '' @ escapeLower (model @ ''_old''),
            ''CREATE TABLE '' @ tableEscaped b model @ '' ('' @ colDefs @ '')'']
           @ buildColumnIndexes b model
           @ [''INSERT INTO '' @ escapeLower model @ '' SELECT ''
                @ join '','' (map (\<lambda>name. escapeLower name)
                                 (map fst (properties (getModelDefinition b model))))
                @ '' FROM '' @ escapeLower (model @ ''_old''),
              ''DROP TABLE '' @ escapeLower (model @ ''_old'')]"
proof -
  define tasks where "tasks =
     [renameOldTable be txOptions (escapeLower model) (escapeLower (model @ ''_old'')),
      createTable be h b model txOptions,
      copyRecords be b model txOptions (escapeLower model) (escapeLower (model @ ''_old'')),
      dropOldTable be txOptions (escapeLower (model @ ''_old''))]"
  have eq: "alterTable_in_transaction be h b model txOptions = series tasks"
    by (simp add: alterTable_in_transaction_def Let_def tasks_def del: series.simps)
  have "runs (series tasks)
          ([''ALTER TABLE '' @ escapeLower model @ '' RENAME TO '' @ escapeLower (model @ ''_old''),
            ''CREATE TABLE '' @ tableEscaped b model @ '' ('' @ colDefs @ '')'']
           @ buildColumnIndexes b model
           @ [''INSERT INTO '' @ escapeLower model @ '' SELECT ''
                @ join '','' (map (\<lambda>name. escapeLower name)
                                 (map fst (properties (getModelDefinition b model))))
                @ '' FROM '' @ escapeLower (model @ ''_old''),
              ''DROP TABLE '' @ escapeLower (model @ ''_old'')])"
    unfolding tasks_def by (rule runs_alteration_steps [OF assms])
  then obtain cs where "fst (series tasks st) = None" "trace (snd (series tasks st)) = trace st @ cs"
    "map fst (queries cs) =
           [''ALTER TABLE '' @ escapeLower model @ '' RENAME TO '' @ escapeLower (model @ ''_old''),
            ''CREATE TABLE '' @ tableEscaped b model @ '' ('' @ colDefs @ '')'']
           @ buildColumnIndexes b model
           @ [''INSERT INTO '' @ escapeLower model @ '' SELECT ''
                @ join '','' (map (\<lambda>name. escapeLower name)
                                 (map fst (properties (getModelDefinition b model))))
                @ '' FROM '' @ escapeLower (model @ ''_old''),
              ''DROP TABLE '' @ escapeLower (model @ ''_old'')]"
    unfolding runs_def by blast
  then show ?thesis
    by (simp add: eq callsSince_def)
qed

end
